theory Spec2Isabelle
  imports Complex_Main "HOL-Library.Word"
begin

section \<open>The SignalR connection: data model\<close>

text \<open>
  A shallow embedding of \<^verbatim>\<open>Source/SignalR/Private/Connection.cpp\<close>. The class
  \<^verbatim>\<open>FConnection\<close> is a record, its member functions take the object and return it
  updated, together with the list of calls they made on the engine (log, HTTP module,
  WebSockets module, socket), in the order they were made.

  The engine types are modelled as far as the file reads them. An \<^verbatim>\<open>FString\<close> is a
  \<^typ>\<open>string\<close> with the engine's comparison, which disregards letter case. A
  \<^verbatim>\<open>TSharedPtr<T>\<close> is a \<^typ>\<open>'a option\<close>, \<^verbatim>\<open>IsValid()\<close> being \<open>\<noteq> None\<close>. An
  \<^verbatim>\<open>int32\<close> is a 32-bit word (read as signed by \<open>sint\<close>). The header map of the
  Connection is handed on whole and never searched by this file; it is a map
  \<open>string \<rightharpoonup> string\<close>.
\<close>

type_synonym int32 = "32 word"

text \<open>
  \<^verbatim>\<open>operator==\<close> of \<^verbatim>\<open>FString\<close> compares the two strings after folding the letters
  \<^verbatim>\<open>A\<close> to \<^verbatim>\<open>Z\<close> to lower case; every other character is compared as it is.
\<close>

definition ToLower :: "char \<Rightarrow> char" where
  "ToLower ch =
     (case map_of (zip ''ABCDEFGHIJKLMNOPQRSTUVWXYZ'' ''abcdefghijklmnopqrstuvwxyz'') ch of
        Some lower \<Rightarrow> lower
      | None \<Rightarrow> ch)"

definition FString_eq :: "string \<Rightarrow> string \<Rightarrow> bool" where
  "FString_eq a b = (map ToLower a = map ToLower b)"

text \<open>
  A \<^verbatim>\<open>TMap<FString, T>\<close> that is searched is the list of its pairs. Its keys are
  compared by \<^verbatim>\<open>operator==\<close> of \<^verbatim>\<open>FString\<close>, so \<^verbatim>\<open>Find\<close> gives the value stored
  under a key that equals the name up to letter case. The engine keeps at most one pair
  for such a key (\<^verbatim>\<open>Add\<close> replaces it); a list with several is read through the first.
\<close>

fun Find :: "(string \<times> 'v) list \<Rightarrow> string \<Rightarrow> 'v option" where
  "Find [] Key = None"
| "Find ((k, v) # pairs) Key = (if FString_eq k Key then Some v else Find pairs Key)"

definition Remove :: "(string \<times> 'v) list \<Rightarrow> string \<Rightarrow> (string \<times> 'v) list" where
  "Remove pairs Key = filter (\<lambda>(k, v). \<not> FString_eq k Key) pairs"

definition Add :: "(string \<times> 'v) list \<Rightarrow> string \<Rightarrow> 'v \<Rightarrow> (string \<times> 'v) list" where
  "Add pairs Key Value = (Key, Value) # Remove pairs Key"

text \<open>
  \<^verbatim>\<open>FJsonValue\<close> with its subclasses, one constructor each; \<^verbatim>\<open>EJson\<close> is the tag that
  the member \<^verbatim>\<open>Type\<close> holds. The fields of an object are the \<^verbatim>\<open>Values\<close> map of
  \<^verbatim>\<open>FJsonObject\<close>; both the entries of an array and the values of a map are shared
  pointers. The number's payload (a double) is never read by this file.
\<close>

datatype EJson = EJson_None | EJson_Null | EJson_String | EJson_Number | EJson_Boolean
  | EJson_Array | EJson_Object

datatype FJsonValue =
    FJsonValueNull
  | FJsonValueString string
  | FJsonValueNumber real
  | FJsonValueBoolean bool
  | FJsonValueArray "FJsonValue option list"
  | FJsonValueObject "(string \<times> FJsonValue option) list"

type_synonym FJsonObject = "(string \<times> FJsonValue option) list"

fun Type :: "FJsonValue \<Rightarrow> EJson" where
  "Type FJsonValueNull = EJson_Null"
| "Type (FJsonValueString s) = EJson_String"
| "Type (FJsonValueNumber d) = EJson_Number"
| "Type (FJsonValueBoolean b) = EJson_Boolean"
| "Type (FJsonValueArray a) = EJson_Array"
| "Type (FJsonValueObject obj) = EJson_Object"

text \<open>
  The accessors of the engine's JSON classes that the handler calls. \<^verbatim>\<open>HasField\<close>
  and \<^verbatim>\<open>HasTypedField\<close> look the name up in \<^verbatim>\<open>Values\<close> and ask for a valid pointer
  (and the type). On a value of another type, \<^verbatim>\<open>AsString\<close>, \<^verbatim>\<open>AsArray\<close> and
  \<^verbatim>\<open>AsObject\<close> convert the value or report to the engine's own log; the handler reaches
  them only behind a test of the type, except for the field \<^verbatim>\<open>accessToken\<close>, whose
  value it drops, so the model gives the empty value there.
\<close>

definition HasField :: "FJsonObject \<Rightarrow> string \<Rightarrow> bool" where
  "HasField obj FieldName =
     (case Find obj FieldName of Some (Some v) \<Rightarrow> True | _ \<Rightarrow> False)"

definition HasTypedField :: "EJson \<Rightarrow> FJsonObject \<Rightarrow> string \<Rightarrow> bool" where
  "HasTypedField JsonType obj FieldName =
     (case Find obj FieldName of Some (Some v) \<Rightarrow> Type v = JsonType | _ \<Rightarrow> False)"

fun AsString :: "FJsonValue \<Rightarrow> string" where
  "AsString (FJsonValueString s) = s"
| "AsString v = []"

fun AsArray :: "FJsonValue \<Rightarrow> FJsonValue option list" where
  "AsArray (FJsonValueArray a) = a"
| "AsArray v = []"

fun AsObject :: "FJsonValue \<Rightarrow> FJsonObject" where
  "AsObject (FJsonValueObject obj) = obj"
| "AsObject v = []"

definition GetStringField :: "FJsonObject \<Rightarrow> string \<Rightarrow> string" where
  "GetStringField obj FieldName =
     (case Find obj FieldName of Some (Some v) \<Rightarrow> AsString v | _ \<Rightarrow> [])"

definition GetArrayField :: "FJsonObject \<Rightarrow> string \<Rightarrow> FJsonValue option list" where
  "GetArrayField obj FieldName =
     (case Find obj FieldName of Some (Some v) \<Rightarrow> AsArray v | _ \<Rightarrow> [])"

text \<open>
  The HTTP request as \<^verbatim>\<open>Negotiate\<close> builds it and the response as the handler reads
  it. \<^verbatim>\<open>CreateRequest\<close> gives a request on which nothing is set yet.
\<close>

record FHttpRequest =
  Verb :: string
  URL :: string
  RequestHeaders :: "string \<rightharpoonup> string"
  RequestContent :: string
  OnProcessRequestComplete :: "string option"

definition CreateRequest :: FHttpRequest where
  "CreateRequest = \<lparr>Verb = [], URL = [], RequestHeaders = Map.empty,
     RequestContent = [], OnProcessRequestComplete = None\<rparr>"

record FHttpResponse =
  ResponseCode :: int32
  ContentAsString :: string

text \<open>
  The socket handle that \<^verbatim>\<open>CreateWebSocket\<close> returns: what it was created with, what
  its \<^verbatim>\<open>IsConnected()\<close> reports, and the handlers added to its four events.
\<close>

datatype handler = Broadcast_OnConnectedEvent | Log_and_Broadcast_OnConnectionErrorEvent
  | Broadcast_OnClosedEvent | Broadcast_OnMessageEvent

record IWebSocket =
  SocketUrl :: string
  SocketProtocol :: string
  UpgradeHeaders :: "string \<rightharpoonup> string"
  SocketIsConnected :: bool
  OnConnected :: "handler list"
  OnConnectionError :: "handler list"
  OnClosed :: "handler list"
  OnMessage :: "handler list"

text \<open>
  The members of \<^verbatim>\<open>FConnection\<close> that the file reads and writes (the four broadcast
  events of the class hold the callers' subscriptions and are left out).
\<close>

record FConnection =
  Host :: string
  Headers :: "string \<rightharpoonup> string"
  ConnectionId :: string
  Connection :: "IWebSocket option"

text \<open>The calls made on the engine, as they appear in the source.\<close>

datatype log_arg = Arg_d int32 | Arg_s string

datatype call =
    UE_LOG_Error string "log_arg list"
  | ProcessRequest FHttpRequest
  | CreateWebSocket_call string string "string \<rightharpoonup> string"
  | Socket_Connect
  | Socket_Send string
  | Socket_Close int32 string

datatype crash = Null_dereference

section \<open>The member functions\<close>

definition new_FConnection :: "string \<Rightarrow> (string \<rightharpoonup> string) \<Rightarrow> FConnection" where
  "new_FConnection InHost InHeaders =
     \<lparr>Host = InHost, Headers = InHeaders, ConnectionId = [], Connection = None\<rparr>"

definition IsConnected :: "FConnection \<Rightarrow> bool" where
  "IsConnected c = (case Connection c of Some ws \<Rightarrow> SocketIsConnected ws | None \<Rightarrow> False)"

definition Send :: "FConnection \<Rightarrow> string \<Rightarrow> FConnection \<times> call list" where
  "Send c Data =
     (case Connection c of
        Some ws \<Rightarrow> (c, [Socket_Send Data])
      | None \<Rightarrow> (c, [UE_LOG_Error ''Cannot send data to non connected websocket.'' []]))"

definition Close :: "FConnection \<Rightarrow> int32 \<Rightarrow> string \<Rightarrow> FConnection \<times> call list" where
  "Close c Code Reason =
     (case Connection c of
        Some ws \<Rightarrow> (c, [Socket_Close Code Reason])
      | None \<Rightarrow> (c, [UE_LOG_Error ''Cannot close non connected websocket.'' []]))"

definition Negotiate :: "FConnection \<Rightarrow> FConnection \<times> call list" where
  "Negotiate c =
     (let HttpRequest = CreateRequest;
          HttpRequest = HttpRequest\<lparr>Verb := ''POST''\<rparr>;
          HttpRequest = HttpRequest\<lparr>OnProcessRequestComplete := Some ''FConnection::OnNegotiateResponse''\<rparr>;
          HttpRequest = HttpRequest\<lparr>URL := ''http://'' @ Host c @ ''/negotiate?negotiateVersion=1''\<rparr>
      in (c, [ProcessRequest HttpRequest]))"

definition Connect :: "FConnection \<Rightarrow> FConnection \<times> call list" where
  "Connect c = Negotiate c"

text \<open>
  \<^verbatim>\<open>StartWebSocket\<close>. The WebSockets module is a parameter: \<open>CreateWebSocket\<close> gives the
  handle for a URL, a protocol and the upgrade headers, or no handle.
\<close>

definition StartWebSocket ::
  "(string \<Rightarrow> string \<Rightarrow> (string \<rightharpoonup> string) \<Rightarrow> IWebSocket option) \<Rightarrow> FConnection
     \<Rightarrow> FConnection \<times> call list" where
  "StartWebSocket CreateWebSocket c =
     (let created = CreateWebSocket_call (''ws://'' @ Host c) [] (Headers c);
          c = c\<lparr>Connection := CreateWebSocket (''ws://'' @ Host c) [] (Headers c)\<rparr>
      in case Connection c of
           Some ws \<Rightarrow>
             (let ws = ws\<lparr>OnConnected := OnConnected ws @ [Broadcast_OnConnectedEvent]\<rparr>;
                  ws = ws\<lparr>OnConnectionError :=
                         OnConnectionError ws @ [Log_and_Broadcast_OnConnectionErrorEvent]\<rparr>;
                  ws = ws\<lparr>OnClosed := OnClosed ws @ [Broadcast_OnClosedEvent]\<rparr>;
                  ws = ws\<lparr>OnMessage := OnMessage ws @ [Broadcast_OnMessageEvent]\<rparr>
              in (c\<lparr>Connection := Some ws\<rparr>, [created, Socket_Connect]))
         | None \<Rightarrow> (c, [created, UE_LOG_Error ''Cannot start websocket.'' []]))"

text \<open>
  The two loops of the handler, each a recursion over the array that carries the flag
  \<^verbatim>\<open>bIsCompatible\<close>: the inner one over \<^verbatim>\<open>transferFormats\<close>, the outer one over
  \<^verbatim>\<open>availableTransports\<close>.
\<close>

fun scan_transferFormats :: "FJsonValue option list \<Rightarrow> bool \<Rightarrow> bool" where
  "scan_transferFormats [] bIsCompatible = bIsCompatible"
| "scan_transferFormats (TransportFormatData # rest) bIsCompatible =
     scan_transferFormats rest
       (case TransportFormatData of
          Some v \<Rightarrow>
            if Type v = EJson_String \<and> FString_eq (AsString v) ''Text'' then True
            else bIsCompatible
        | None \<Rightarrow> bIsCompatible)"

fun scan_availableTransports :: "FJsonValue option list \<Rightarrow> bool \<Rightarrow> bool" where
  "scan_availableTransports [] bIsCompatible = bIsCompatible"
| "scan_availableTransports (TransportData # rest) bIsCompatible =
     scan_availableTransports rest
       (case TransportData of
          Some v \<Rightarrow>
            if Type v = EJson_Object then
              (let TransportObj = AsObject v
               in if HasTypedField EJson_String TransportObj ''transport''
                     \<and> FString_eq (GetStringField TransportObj ''transport'') ''WebSockets''
                     \<and> HasTypedField EJson_Array TransportObj ''transferFormats''
                  then scan_transferFormats (GetArrayField TransportObj ''transferFormats'')
                         bIsCompatible
                  else bIsCompatible)
            else bIsCompatible
        | None \<Rightarrow> bIsCompatible)"

text \<open>
  \<^verbatim>\<open>OnNegotiateResponse\<close>. The JSON reader is a parameter: \<open>Deserialize\<close> gives, for a
  body, the result of \<^verbatim>\<open>FJsonSerializer::Deserialize\<close> and the object pointer it leaves.
  The response pointer is dereferenced unchecked, so an absent response is a crash.
  The block guarded by \<^verbatim>\<open>HasTypedField<EJson::Array>\<close> returns exactly when the scan,
  started with the flag false, leaves it false; every other \<^verbatim>\<open>return\<close> of the source
  is the branch that gives the Connection back with the calls made so far.
\<close>

definition OnNegotiateResponse ::
  "(string \<Rightarrow> bool \<times> FJsonObject option)
     \<Rightarrow> (string \<Rightarrow> string \<Rightarrow> (string \<rightharpoonup> string) \<Rightarrow> IWebSocket option)
     \<Rightarrow> FConnection \<Rightarrow> FHttpRequest option \<Rightarrow> FHttpResponse option \<Rightarrow> bool
     \<Rightarrow> crash + FConnection \<times> call list" where
  "OnNegotiateResponse Deserialize CreateWebSocket c InRequest InResponse bConnectedSuccessfully =
     (case InResponse of
        None \<Rightarrow> Inl Null_dereference
      | Some Response \<Rightarrow>
          if ResponseCode Response \<noteq> 200 then
            Inr (c, [UE_LOG_Error ''Negotiate failed with status code %d''
                       [Arg_d (ResponseCode Response)]])
          else
            (case Deserialize (ContentAsString Response) of
               (True, Some JsonObject) \<Rightarrow>
                 if HasField JsonObject ''error'' then Inr (c, [])
                 else if HasField JsonObject ''ProtocolVersion'' then
                   Inr (c, [UE_LOG_Error ''Detected a connection attempt to an ASP.NET SignalR Server. This client only supports connecting to an ASP.NET Core SignalR Server. See https://aka.ms/signalr-core-differences for details.'' []])
                 else if HasTypedField EJson_String JsonObject ''url'' then
                   (let RedirectionUrl = GetStringField JsonObject ''url'';
                        AccessToken = GetStringField JsonObject ''accessToken''
                    in Inr (c, []))
                 else if HasTypedField EJson_Array JsonObject ''availableTransports''
                      \<and> \<not> scan_availableTransports
                            (GetArrayField JsonObject ''availableTransports'') False
                 then
                   Inr (c, [UE_LOG_Error ''The server does not support WebSockets which is currently the only transport supported by this client.'' []])
                 else
                   (let c = (if HasTypedField EJson_String JsonObject ''connectionId''
                             then c\<lparr>ConnectionId := GetStringField JsonObject ''connectionId''\<rparr>
                             else c);
                        c = (if HasTypedField EJson_String JsonObject ''connectionToken''
                             then c\<lparr>ConnectionId := GetStringField JsonObject ''connectionToken''\<rparr>
                             else c)
                    in Inr (StartWebSocket CreateWebSocket c))
             | _ \<Rightarrow>
                 Inr (c, [UE_LOG_Error ''Cannot parse negotiate response: %s''
                            [Arg_s (ContentAsString Response)]])))"

text \<open>Whether a list of calls constructs a transport.\<close>

fun is_CreateWebSocket :: "call \<Rightarrow> bool" where
  "is_CreateWebSocket (CreateWebSocket_call u p h) = True"
| "is_CreateWebSocket other = False"

definition constructs_transport :: "call list \<Rightarrow> bool" where
  "constructs_transport calls = list_ex is_CreateWebSocket calls"

text \<open>
  The specification's side of the compatibility check, with the engine's comparison: an
  entry of \<^verbatim>\<open>availableTransports\<close> advertises the text WebSocket transport when it is an
  object whose \<^verbatim>\<open>transport\<close> is a string equal to \<^verbatim>\<open>WebSockets\<close> up to letter case and
  whose \<^verbatim>\<open>transferFormats\<close> is an array with a string equal to \<^verbatim>\<open>Text\<close> up to letter
  case among its entries.
\<close>

definition names_Text :: "FJsonValue option \<Rightarrow> bool" where
  "names_Text format =
     (case format of Some (FJsonValueString s) \<Rightarrow> FString_eq s ''Text'' | _ \<Rightarrow> False)"

definition advertises_WebSockets_Text :: "FJsonValue option \<Rightarrow> bool" where
  "advertises_WebSockets_Text entry =
     (case entry of
        Some (FJsonValueObject obj) \<Rightarrow>
          (case Find obj ''transport'' of
             Some (Some (FJsonValueString t)) \<Rightarrow>
               FString_eq t ''WebSockets'' \<and>
               (case Find obj ''transferFormats'' of
                  Some (Some (FJsonValueArray formats)) \<Rightarrow>
                    (\<exists>format \<in> set formats. names_Text format)
                | _ \<Rightarrow> False)
           | _ \<Rightarrow> False)
      | _ \<Rightarrow> False)"

text \<open>
  The identifier that a validated response leaves in \<^verbatim>\<open>ConnectionId\<close>, again in the
  specification's words: the string \<^verbatim>\<open>connectionToken\<close> if there is one, else the string
  \<^verbatim>\<open>connectionId\<close> if there is one, else what was stored before (the fields found by
  the engine's lookup).
\<close>

definition stored_identifier :: "FJsonObject \<Rightarrow> string \<Rightarrow> string" where
  "stored_identifier obj before =
     (case Find obj ''connectionToken'' of
        Some (Some (FJsonValueString token)) \<Rightarrow> token
      | _ \<Rightarrow>
        (case Find obj ''connectionId'' of
           Some (Some (FJsonValueString ident)) \<Rightarrow> ident
         | _ \<Rightarrow> before))"

subsection \<open>Concrete collaborators and responses\<close>

text \<open>
  A JSON reader that knows the listed bodies and fails on every other one (leaving the
  empty object the handler made), and a WebSockets module that always gives a handle,
  not yet connected.
\<close>

definition reader :: "(string \<times> FJsonObject) list \<Rightarrow> string \<Rightarrow> bool \<times> FJsonObject option" where
  "reader known body =
     (case map_of known body of
        Some obj \<Rightarrow> (True, Some obj)
      | None \<Rightarrow> (False, Some []))"

definition socket_module :: "string \<Rightarrow> string \<Rightarrow> (string \<rightharpoonup> string) \<Rightarrow> IWebSocket option" where
  "socket_module url protocol headers =
     Some \<lparr>SocketUrl = url, SocketProtocol = protocol, UpgradeHeaders = headers,
           SocketIsConnected = False, OnConnected = [], OnConnectionError = [],
           OnClosed = [], OnMessage = []\<rparr>"

definition no_socket_module :: "string \<Rightarrow> string \<Rightarrow> (string \<rightharpoonup> string) \<Rightarrow> IWebSocket option" where
  "no_socket_module url protocol headers = None"

definition WebSockets_Text_entry :: "FJsonValue option" where
  "WebSockets_Text_entry =
     Some (FJsonValueObject
       [(''transport'', Some (FJsonValueString ''WebSockets'')),
        (''transferFormats'', Some (FJsonValueArray [Some (FJsonValueString ''Text'')]))])"

definition LongPolling_Text_entry :: "FJsonValue option" where
  "LongPolling_Text_entry =
     Some (FJsonValueObject
       [(''transport'', Some (FJsonValueString ''LongPolling'')),
        (''transferFormats'', Some (FJsonValueArray [Some (FJsonValueString ''Text'')]))])"

definition websockets_text_entry :: "FJsonValue option" where
  "websockets_text_entry =
     Some (FJsonValueObject
       [(''transport'', Some (FJsonValueString ''websockets'')),
        (''transferFormats'', Some (FJsonValueArray [Some (FJsonValueString ''text'')]))])"

definition scenario_A_body :: string where
  \<open>scenario_A_body =
     ''{"availableTransports":[{"transport":"WebSockets","transferFormats":["Text"]}],"connectionId":"abc123"}''\<close>

definition scenario_A_object :: FJsonObject where
  "scenario_A_object =
     [(''availableTransports'', Some (FJsonValueArray [WebSockets_Text_entry])),
      (''connectionId'', Some (FJsonValueString ''abc123''))]"

definition example_headers :: "string \<rightharpoonup> string" where
  "example_headers = [''Authorization'' \<mapsto> ''Bearer token'']"

definition example_connection :: FConnection where
  "example_connection = fst (Connect (new_FConnection ''example.com'' example_headers))"

definition legacy_body :: string where
  \<open>legacy_body =
     ''{"ProtocolVersion":"1.0","availableTransports":[{"transport":"WebSockets","transferFormats":["Text"]}],"connectionId":"abc123"}''\<close>

definition legacy_object :: FJsonObject where
  "legacy_object =
     [(''ProtocolVersion'', Some (FJsonValueString ''1.0'')),
      (''availableTransports'', Some (FJsonValueArray [WebSockets_Text_entry])),
      (''connectionId'', Some (FJsonValueString ''abc123''))]"

definition error_body :: string where
  \<open>error_body =
     ''{"error":"denied","availableTransports":[{"transport":"WebSockets","transferFormats":["Text"]}],"connectionId":"abc123","connectionToken":"tok456"}''\<close>

definition error_object :: FJsonObject where
  "error_object =
     [(''error'', Some (FJsonValueString ''denied'')),
      (''availableTransports'', Some (FJsonValueArray [WebSockets_Text_entry])),
      (''connectionId'', Some (FJsonValueString ''abc123'')),
      (''connectionToken'', Some (FJsonValueString ''tok456''))]"

definition scenario_D_body :: string where
  \<open>scenario_D_body =
     ''{"availableTransports":[{"transport":"LongPolling","transferFormats":["Text"]}]}''\<close>

definition scenario_D_object :: FJsonObject where
  "scenario_D_object =
     [(''availableTransports'', Some (FJsonValueArray [LongPolling_Text_entry]))]"

definition lower_case_body :: string where
  \<open>lower_case_body =
     ''{"availableTransports":[{"transport":"websockets","transferFormats":["text"]}],"connectionId":"abc123"}''\<close>

definition lower_case_object :: FJsonObject where
  "lower_case_object =
     [(''availableTransports'', Some (FJsonValueArray [websockets_text_entry])),
      (''connectionId'', Some (FJsonValueString ''abc123''))]"

definition identifier_only_body :: string where
  \<open>identifier_only_body = ''{"connectionId":"abc123"}''\<close>

definition identifier_only_object :: FJsonObject where
  "identifier_only_object = [(''connectionId'', Some (FJsonValueString ''abc123''))]"

definition both_identifiers_body :: string where
  \<open>both_identifiers_body = ''{"connectionId":"abc123","connectionToken":"tok456"}''\<close>

definition both_identifiers_object :: FJsonObject where
  "both_identifiers_object =
     [(''connectionId'', Some (FJsonValueString ''abc123'')),
      (''connectionToken'', Some (FJsonValueString ''tok456''))]"

definition token_only_body :: string where
  \<open>token_only_body = ''{"connectionToken":"tok456"}''\<close>

definition token_only_object :: FJsonObject where
  "token_only_object = [(''connectionToken'', Some (FJsonValueString ''tok456''))]"

definition upper_case_token_body :: string where
  \<open>upper_case_token_body = ''{"connectionId":"abc123","CONNECTIONTOKEN":"tok456"}''\<close>

definition upper_case_token_object :: FJsonObject where
  "upper_case_token_object =
     [(''connectionId'', Some (FJsonValueString ''abc123'')),
      (''CONNECTIONTOKEN'', Some (FJsonValueString ''tok456''))]"

definition transports_string_body :: string where
  \<open>transports_string_body = ''{"connectionId":"abc123","availableTransports":"WebSockets"}''\<close>

definition transports_string_object :: FJsonObject where
  "transports_string_object =
     [(''connectionId'', Some (FJsonValueString ''abc123'')),
      (''availableTransports'', Some (FJsonValueString ''WebSockets''))]"

definition url_number_body :: string where
  \<open>url_number_body =
     ''{"availableTransports":[{"transport":"WebSockets","transferFormats":["Text"]}],"connectionId":"abc123","url":42}''\<close>

definition url_number_object :: FJsonObject where
  "url_number_object =
     [(''availableTransports'', Some (FJsonValueArray [WebSockets_Text_entry])),
      (''connectionId'', Some (FJsonValueString ''abc123'')),
      (''url'', Some (FJsonValueNumber 42))]"

section \<open>Properties\<close>

lemma FString_eq_refl: "FString_eq a a"
  by (simp add: FString_eq_def)

lemma FString_eq_sym: "FString_eq a b = FString_eq b a"
  by (auto simp: FString_eq_def)

lemma FString_eq_trans: "FString_eq a b \<Longrightarrow> FString_eq b c \<Longrightarrow> FString_eq a c"
  by (simp add: FString_eq_def)

lemma Find_Remove:
  "Find (Remove pairs Key) Name = (if FString_eq Key Name then None else Find pairs Name)"
proof (induction pairs)
  case Nil
  show ?case by (simp add: Remove_def)
next
  case (Cons pair pairs)
  obtain k v where pair: "pair = (k, v)" by (cases pair)
  show ?case
  proof (cases "FString_eq Key Name")
    case True
    then have "FString_eq k Key = FString_eq k Name"
      by (auto simp: FString_eq_def)
    with Cons True show ?thesis
      by (simp add: Remove_def pair)
  next
    case False
    then have "FString_eq k Name \<Longrightarrow> \<not> FString_eq k Key"
      by (auto simp: FString_eq_def)
    with Cons False show ?thesis
      by (auto simp: Remove_def pair)
  qed
qed

lemma Find_Add:
  "Find (Add pairs Key Value) Name =
     (if FString_eq Key Name then Some Value else Find pairs Name)"
  by (simp add: Add_def Find_Remove)

lemma ToLower_upper_case:
  "ToLower CHR ''A'' = CHR ''a''"
  "ToLower CHR ''B'' = CHR ''b''"
  "ToLower CHR ''C'' = CHR ''c''"
  "ToLower CHR ''D'' = CHR ''d''"
  "ToLower CHR ''E'' = CHR ''e''"
  "ToLower CHR ''F'' = CHR ''f''"
  "ToLower CHR ''G'' = CHR ''g''"
  "ToLower CHR ''H'' = CHR ''h''"
  "ToLower CHR ''I'' = CHR ''i''"
  "ToLower CHR ''J'' = CHR ''j''"
  "ToLower CHR ''K'' = CHR ''k''"
  "ToLower CHR ''L'' = CHR ''l''"
  "ToLower CHR ''M'' = CHR ''m''"
  "ToLower CHR ''N'' = CHR ''n''"
  "ToLower CHR ''O'' = CHR ''o''"
  "ToLower CHR ''P'' = CHR ''p''"
  "ToLower CHR ''Q'' = CHR ''q''"
  "ToLower CHR ''R'' = CHR ''r''"
  "ToLower CHR ''S'' = CHR ''s''"
  "ToLower CHR ''T'' = CHR ''t''"
  "ToLower CHR ''U'' = CHR ''u''"
  "ToLower CHR ''V'' = CHR ''v''"
  "ToLower CHR ''W'' = CHR ''w''"
  "ToLower CHR ''X'' = CHR ''x''"
  "ToLower CHR ''Y'' = CHR ''y''"
  "ToLower CHR ''Z'' = CHR ''z''"
  by (simp_all add: ToLower_def)

lemma ToLower_lower_case:
  "ToLower CHR ''a'' = CHR ''a''"
  "ToLower CHR ''b'' = CHR ''b''"
  "ToLower CHR ''c'' = CHR ''c''"
  "ToLower CHR ''d'' = CHR ''d''"
  "ToLower CHR ''e'' = CHR ''e''"
  "ToLower CHR ''f'' = CHR ''f''"
  "ToLower CHR ''g'' = CHR ''g''"
  "ToLower CHR ''h'' = CHR ''h''"
  "ToLower CHR ''i'' = CHR ''i''"
  "ToLower CHR ''j'' = CHR ''j''"
  "ToLower CHR ''k'' = CHR ''k''"
  "ToLower CHR ''l'' = CHR ''l''"
  "ToLower CHR ''m'' = CHR ''m''"
  "ToLower CHR ''n'' = CHR ''n''"
  "ToLower CHR ''o'' = CHR ''o''"
  "ToLower CHR ''p'' = CHR ''p''"
  "ToLower CHR ''q'' = CHR ''q''"
  "ToLower CHR ''r'' = CHR ''r''"
  "ToLower CHR ''s'' = CHR ''s''"
  "ToLower CHR ''t'' = CHR ''t''"
  "ToLower CHR ''u'' = CHR ''u''"
  "ToLower CHR ''v'' = CHR ''v''"
  "ToLower CHR ''w'' = CHR ''w''"
  "ToLower CHR ''x'' = CHR ''x''"
  "ToLower CHR ''y'' = CHR ''y''"
  "ToLower CHR ''z'' = CHR ''z''"
  by (simp_all add: ToLower_def)

lemmas folded_names = ToLower_upper_case ToLower_lower_case

lemma field_names:
  "\<not> FString_eq ''availableTransports'' ''error''"
  "\<not> FString_eq ''availableTransports'' ''ProtocolVersion''"
  "\<not> FString_eq ''availableTransports'' ''url''"
  "\<not> FString_eq ''availableTransports'' ''connectionId''"
  "\<not> FString_eq ''availableTransports'' ''connectionToken''"
  "\<not> FString_eq ''url'' ''error''"
  "\<not> FString_eq ''url'' ''ProtocolVersion''"
  "\<not> FString_eq ''url'' ''availableTransports''"
  "\<not> FString_eq ''url'' ''connectionId''"
  "\<not> FString_eq ''url'' ''connectionToken''"
  by (simp_all add: FString_eq_def folded_names)

lemma example_strings:
  "FString_eq ''websockets'' ''WebSockets''"
  "FString_eq ''text'' ''Text''"
  "FString_eq ''Text'' ''Text''"
  "FString_eq ''WebSockets'' ''WebSockets''"
  "FString_eq ''CONNECTIONTOKEN'' ''connectionToken''"
  "\<not> FString_eq ''LongPolling'' ''WebSockets''"
  by (simp_all add: FString_eq_def folded_names)

lemma example_entries:
  "advertises_WebSockets_Text WebSockets_Text_entry"
  "advertises_WebSockets_Text websockets_text_entry"
  "\<not> advertises_WebSockets_Text LongPolling_Text_entry"
  by (simp_all add: advertises_WebSockets_Text_def WebSockets_Text_entry_def
      websockets_text_entry_def LongPolling_Text_entry_def names_Text_def
      FString_eq_def folded_names)

lemma scenario_A_fields:
  "\<not> HasField scenario_A_object ''error''"
  "\<not> HasField scenario_A_object ''ProtocolVersion''"
  "\<not> HasTypedField EJson_String scenario_A_object ''url''"
  "HasTypedField EJson_Array scenario_A_object ''availableTransports''"
  "GetArrayField scenario_A_object ''availableTransports'' = [WebSockets_Text_entry]"
  "stored_identifier scenario_A_object before = ''abc123''"
  by (simp_all add: scenario_A_object_def HasField_def HasTypedField_def GetArrayField_def
      stored_identifier_def FString_eq_def folded_names)

lemma names_Text_eq:
  "(Type v = EJson_String \<and> FString_eq (AsString v) ''Text'') = names_Text (Some v)"
  by (cases v) (simp_all add: names_Text_def)

lemma scan_transferFormats_eq:
  "scan_transferFormats formats flag =
     (flag \<or> (\<exists>format \<in> set formats. names_Text format))"
proof (induction formats arbitrary: flag)
  case Nil
  show ?case by simp
next
  case (Cons entry rest)
  show ?case
  proof (cases entry)
    case None
    with Cons show ?thesis by (simp add: names_Text_def)
  next
    case (Some v)
    with Cons show ?thesis by (auto simp: names_Text_eq)
  qed
qed

lemma entry_test_eq:
  "(Type v = EJson_Object
      \<and> HasTypedField EJson_String (AsObject v) ''transport''
      \<and> FString_eq (GetStringField (AsObject v) ''transport'') ''WebSockets''
      \<and> HasTypedField EJson_Array (AsObject v) ''transferFormats''
      \<and> (\<exists>format \<in> set (GetArrayField (AsObject v) ''transferFormats'').
            names_Text format))
   = advertises_WebSockets_Text (Some v)"
proof (cases v)
  case (FJsonValueObject obj)
  show ?thesis
    unfolding FJsonValueObject advertises_WebSockets_Text_def HasTypedField_def
      GetStringField_def GetArrayField_def
    by (auto split: option.splits FJsonValue.splits)
qed (simp_all add: advertises_WebSockets_Text_def)

lemma scan_availableTransports_eq:
  "scan_availableTransports transports flag =
     (flag \<or> (\<exists>entry \<in> set transports. advertises_WebSockets_Text entry))"
proof (induction transports arbitrary: flag)
  case Nil
  show ?case by simp
next
  case (Cons entry rest)
  show ?case
  proof (cases entry)
    case None
    with Cons show ?thesis by (simp add: advertises_WebSockets_Text_def)
  next
    case (Some v)
    have flag': "(if Type v = EJson_Object then
              (let TransportObj = AsObject v
               in if HasTypedField EJson_String TransportObj ''transport''
                     \<and> FString_eq (GetStringField TransportObj ''transport'') ''WebSockets''
                     \<and> HasTypedField EJson_Array TransportObj ''transferFormats''
                  then scan_transferFormats (GetArrayField TransportObj ''transferFormats'')
                         flag
                  else flag)
            else flag) = (flag \<or> advertises_WebSockets_Text (Some v))"
      using entry_test_eq [of v] by (auto simp: Let_def scan_transferFormats_eq)
    have "scan_availableTransports (entry # rest) flag =
            scan_availableTransports rest (flag \<or> advertises_WebSockets_Text (Some v))"
      unfolding Some scan_availableTransports.simps option.case flag' by (rule refl)
    with Cons Some show ?thesis by auto
  qed
qed

lemma stored_identifier_eq:
  "(if HasTypedField EJson_String obj ''connectionToken''
    then GetStringField obj ''connectionToken''
    else if HasTypedField EJson_String obj ''connectionId''
         then GetStringField obj ''connectionId'' else before)
   = stored_identifier obj before"
  by (auto simp: stored_identifier_def HasTypedField_def GetStringField_def
      split: option.splits FJsonValue.splits)

lemma StartWebSocket_constructs:
  "constructs_transport (snd (StartWebSocket CreateWebSocket c))"
  by (simp add: StartWebSocket_def constructs_transport_def Let_def split: option.splits)

lemma example_connection_eq:
  "example_connection =
     \<lparr>Host = ''example.com'', Headers = example_headers, ConnectionId = [], Connection = None\<rparr>"
  by (simp add: example_connection_def Connect_def Negotiate_def new_FConnection_def Let_def)

lemma OnNegotiateResponse_validated:
  assumes "ResponseCode Response = 200"
    and "Deserialize (ContentAsString Response) = (True, Some JsonObject)"
    and "\<not> HasField JsonObject ''error''"
    and "\<not> HasField JsonObject ''ProtocolVersion''"
    and "\<not> HasTypedField EJson_String JsonObject ''url''"
  shows "OnNegotiateResponse Deserialize CreateWebSocket c InRequest (Some Response) b =
           Inr (if HasTypedField EJson_Array JsonObject ''availableTransports''
                   \<and> \<not> (\<exists>entry \<in> set (GetArrayField JsonObject ''availableTransports'').
                           advertises_WebSockets_Text entry)
                then (c, [UE_LOG_Error ''The server does not support WebSockets which is currently the only transport supported by this client.'' []])
                else StartWebSocket CreateWebSocket
                       (c\<lparr>ConnectionId := stored_identifier JsonObject (ConnectionId c)\<rparr>))"
proof -
  have ident: "(if HasTypedField EJson_String JsonObject ''connectionToken''
         then (if HasTypedField EJson_String JsonObject ''connectionId''
               then c\<lparr>ConnectionId := GetStringField JsonObject ''connectionId''\<rparr> else c)
              \<lparr>ConnectionId := GetStringField JsonObject ''connectionToken''\<rparr>
         else (if HasTypedField EJson_String JsonObject ''connectionId''
               then c\<lparr>ConnectionId := GetStringField JsonObject ''connectionId''\<rparr> else c))
      = c\<lparr>ConnectionId := stored_identifier JsonObject (ConnectionId c)\<rparr>"
    using stored_identifier_eq [of JsonObject "ConnectionId c"] by auto
  show ?thesis
    using assms ident
    by (simp add: OnNegotiateResponse_def Let_def scan_availableTransports_eq)
qed

lemma OnNegotiateResponse_rejected:
  assumes "ResponseCode Response = 200"
    and "Deserialize (ContentAsString Response) = (True, Some JsonObject)"
    and "HasField JsonObject ''error'' \<or> HasField JsonObject ''ProtocolVersion''
         \<or> HasTypedField EJson_String JsonObject ''url''"
  shows "OnNegotiateResponse Deserialize CreateWebSocket c InRequest (Some Response) b =
           Inr (c, if \<not> HasField JsonObject ''error'' \<and> HasField JsonObject ''ProtocolVersion''
                   then [UE_LOG_Error ''Detected a connection attempt to an ASP.NET SignalR Server. This client only supports connecting to an ASP.NET Core SignalR Server. See https://aka.ms/signalr-core-differences for details.'' []]
                   else [])"
  using assms by (auto simp: OnNegotiateResponse_def Let_def)


lemma StartWebSocket_calls:
  "\<exists>calls. snd (StartWebSocket CreateWebSocket c) =
             CreateWebSocket_call (''ws://'' @ Host c) [] (Headers c) # calls
           \<and> \<not> constructs_transport calls
           \<and> (Connection (fst (StartWebSocket CreateWebSocket c)) \<noteq> None
                \<longrightarrow> calls = [Socket_Connect])"
  by (simp add: StartWebSocket_def constructs_transport_def Let_def split: option.splits)

lemma StartWebSocket_members:
  "Host (fst (StartWebSocket CreateWebSocket c)) = Host c"
  "Headers (fst (StartWebSocket CreateWebSocket c)) = Headers c"
  "ConnectionId (fst (StartWebSocket CreateWebSocket c)) = ConnectionId c"
  "(Connection (fst (StartWebSocket CreateWebSocket c)) = None) =
     (CreateWebSocket (''ws://'' @ Host c) [] (Headers c) = None)"
  by (simp_all add: StartWebSocket_def Let_def split: option.splits)

lemma rejected_no_transport:
  "\<not> constructs_transport []"
  "\<not> constructs_transport [UE_LOG_Error text args]"
  by (simp_all add: constructs_transport_def)

lemma Connect_request:
  "Connect c =
     (c, [ProcessRequest
            \<lparr>Verb = ''POST'',
             URL = ''http://'' @ Host c @ ''/negotiate?negotiateVersion=1'',
             RequestHeaders = Map.empty,
             RequestContent = [],
             OnProcessRequestComplete = Some ''FConnection::OnNegotiateResponse''\<rparr>])"
  by (simp add: Connect_def Negotiate_def CreateRequest_def Let_def)

lemma OnNegotiateResponse_cases:
  assumes "ResponseCode Response = 200"
    and "Deserialize (ContentAsString Response) = (True, Some JsonObject)"
  shows "OnNegotiateResponse Deserialize CreateWebSocket c InRequest (Some Response) b =
     Inr (if HasField JsonObject ''error'' then (c, [])
          else if HasField JsonObject ''ProtocolVersion'' then
            (c, [UE_LOG_Error ''Detected a connection attempt to an ASP.NET SignalR Server. This client only supports connecting to an ASP.NET Core SignalR Server. See https://aka.ms/signalr-core-differences for details.'' []])
          else if HasTypedField EJson_String JsonObject ''url'' then (c, [])
          else if HasTypedField EJson_Array JsonObject ''availableTransports''
                  \<and> \<not> (\<exists>entry \<in> set (GetArrayField JsonObject ''availableTransports'').
                          advertises_WebSockets_Text entry)
          then (c, [UE_LOG_Error ''The server does not support WebSockets which is currently the only transport supported by this client.'' []])
          else StartWebSocket CreateWebSocket
                 (c\<lparr>ConnectionId := stored_identifier JsonObject (ConnectionId c)\<rparr>))"
proof (cases "HasField JsonObject ''error'' \<or> HasField JsonObject ''ProtocolVersion''
         \<or> HasTypedField EJson_String JsonObject ''url''")
  case True
  with OnNegotiateResponse_rejected
      [where Deserialize = Deserialize and Response = Response and JsonObject = JsonObject
         and CreateWebSocket = CreateWebSocket and c = c and InRequest = InRequest and b = b]
    assms
  show ?thesis by auto
next
  case False
  with OnNegotiateResponse_validated
      [where Deserialize = Deserialize and Response = Response and JsonObject = JsonObject
         and CreateWebSocket = CreateWebSocket and c = c and InRequest = InRequest and b = b]
    assms
  show ?thesis by simp
qed

lemma StartWebSocket_nonempty:
  "StartWebSocket CreateWebSocket c \<noteq> (c0, [])"
  by (simp add: StartWebSocket_def Let_def split: option.splits)

lemma stored_identifier_strings:
  "Find obj ''connectionToken'' = Some (Some (FJsonValueString token)) \<Longrightarrow>
     stored_identifier obj before = token"
  "Find obj ''connectionId'' = Some (Some (FJsonValueString ident)) \<Longrightarrow>
     \<not> HasTypedField EJson_String obj ''connectionToken'' \<Longrightarrow>
     stored_identifier obj before = ident"
  by (auto simp: stored_identifier_def HasTypedField_def split: option.splits FJsonValue.splits)

lemma other_field:
  "\<not> FString_eq other name \<Longrightarrow> HasField (Add obj other v) name = HasField obj name"
  "\<not> FString_eq other name \<Longrightarrow> HasField (Remove obj other) name = HasField obj name"
  "\<not> FString_eq other name \<Longrightarrow>
     HasTypedField JsonType (Add obj other v) name = HasTypedField JsonType obj name"
  "\<not> FString_eq other name \<Longrightarrow>
     HasTypedField JsonType (Remove obj other) name = HasTypedField JsonType obj name"
  "\<not> FString_eq other name \<Longrightarrow> GetArrayField (Add obj other v) name = GetArrayField obj name"
  "\<not> FString_eq other name \<Longrightarrow> GetArrayField (Remove obj other) name = GetArrayField obj name"
  by (simp_all add: HasField_def HasTypedField_def GetArrayField_def Find_Add Find_Remove)

lemma stored_identifier_other_field:
  assumes "\<not> FString_eq other ''connectionToken''" and "\<not> FString_eq other ''connectionId''"
  shows "stored_identifier (Add obj other v) before = stored_identifier obj before"
    and "stored_identifier (Remove obj other) before = stored_identifier obj before"
proof -
  have added: "Find (Add obj other v) ''connectionToken'' = Find obj ''connectionToken''"
    "Find (Add obj other v) ''connectionId'' = Find obj ''connectionId''"
    using assms by (simp_all add: Find_Add)
  have removed: "Find (Remove obj other) ''connectionToken'' = Find obj ''connectionToken''"
    "Find (Remove obj other) ''connectionId'' = Find obj ''connectionId''"
    using assms by (simp_all add: Find_Remove)
  show "stored_identifier (Add obj other v) before = stored_identifier obj before"
    unfolding stored_identifier_def added by (rule refl)
  show "stored_identifier (Remove obj other) before = stored_identifier obj before"
    unfolding stored_identifier_def removed by (rule refl)
qed

lemma array_field:
  "HasTypedField EJson_Array (Add obj name (Some (FJsonValueArray entries))) name"
  "GetArrayField (Add obj name (Some (FJsonValueArray entries))) name = entries"
  by (simp_all add: HasTypedField_def GetArrayField_def Find_Add FString_eq_refl)

lemma removed_field:
  "\<not> HasTypedField JsonType (Remove obj name) name"
  by (simp add: HasTypedField_def Find_Remove FString_eq_refl)

lemma absent_field:
  "Find obj name = None \<Longrightarrow> \<not> HasField obj name"
  "Find obj name = None \<Longrightarrow> \<not> HasTypedField JsonType obj name"
  by (simp_all add: HasField_def HasTypedField_def)

lemmas evaluate_fields = HasField_def HasTypedField_def GetArrayField_def
  stored_identifier_def FString_eq_def folded_names

lemma legacy_fields:
  "HasField legacy_object ''ProtocolVersion''"
  "HasTypedField EJson_Array legacy_object ''availableTransports''"
  "HasTypedField EJson_String legacy_object ''connectionId''"
  by (simp_all add: legacy_object_def evaluate_fields)

lemma error_fields:
  "HasField error_object ''error''"
  "HasTypedField EJson_Array error_object ''availableTransports''"
  "GetArrayField error_object ''availableTransports'' = [WebSockets_Text_entry]"
  "HasTypedField EJson_String error_object ''connectionId''"
  "HasTypedField EJson_String error_object ''connectionToken''"
  by (simp_all add: error_object_def evaluate_fields)

lemma scenario_D_fields:
  "\<not> HasField scenario_D_object ''error''"
  "\<not> HasField scenario_D_object ''ProtocolVersion''"
  "\<not> HasTypedField EJson_String scenario_D_object ''url''"
  "HasTypedField EJson_Array scenario_D_object ''availableTransports''"
  "GetArrayField scenario_D_object ''availableTransports'' = [LongPolling_Text_entry]"
  by (simp_all add: scenario_D_object_def evaluate_fields)

lemma lower_case_fields:
  "\<not> HasField lower_case_object ''error''"
  "\<not> HasField lower_case_object ''ProtocolVersion''"
  "\<not> HasTypedField EJson_String lower_case_object ''url''"
  "HasTypedField EJson_Array lower_case_object ''availableTransports''"
  "GetArrayField lower_case_object ''availableTransports'' = [websockets_text_entry]"
  "stored_identifier lower_case_object before = ''abc123''"
  by (simp_all add: lower_case_object_def evaluate_fields)

lemma identifier_only_fields:
  "\<not> HasField identifier_only_object ''error''"
  "\<not> HasField identifier_only_object ''ProtocolVersion''"
  "\<not> HasTypedField EJson_String identifier_only_object ''url''"
  "Find identifier_only_object ''availableTransports'' = None"
  "\<not> HasTypedField EJson_Array identifier_only_object ''availableTransports''"
  "stored_identifier identifier_only_object before = ''abc123''"
  by (simp_all add: identifier_only_object_def evaluate_fields)

lemma identifier_only_identifier:
  "Find identifier_only_object ''connectionId'' = Some (Some (FJsonValueString ''abc123''))"
  "\<not> HasTypedField EJson_String identifier_only_object ''connectionToken''"
  by (simp_all add: identifier_only_object_def evaluate_fields)

lemma both_identifiers_fields:
  "\<not> HasField both_identifiers_object ''error''"
  "\<not> HasField both_identifiers_object ''ProtocolVersion''"
  "\<not> HasTypedField EJson_String both_identifiers_object ''url''"
  "\<not> HasTypedField EJson_Array both_identifiers_object ''availableTransports''"
  "Find both_identifiers_object ''connectionId'' = Some (Some (FJsonValueString ''abc123''))"
  "Find both_identifiers_object ''connectionToken'' = Some (Some (FJsonValueString ''tok456''))"
  "stored_identifier both_identifiers_object before = ''tok456''"
  by (simp_all add: both_identifiers_object_def evaluate_fields)

lemma token_only_fields:
  "\<not> HasField token_only_object ''error''"
  "\<not> HasField token_only_object ''ProtocolVersion''"
  "\<not> HasTypedField EJson_String token_only_object ''url''"
  "\<not> HasTypedField EJson_Array token_only_object ''availableTransports''"
  "\<not> HasTypedField EJson_String token_only_object ''connectionId''"
  "Find token_only_object ''connectionToken'' = Some (Some (FJsonValueString ''tok456''))"
  "stored_identifier token_only_object before = ''tok456''"
  by (simp_all add: token_only_object_def evaluate_fields)

lemma upper_case_token_fields:
  "\<not> HasField upper_case_token_object ''error''"
  "\<not> HasField upper_case_token_object ''ProtocolVersion''"
  "\<not> HasTypedField EJson_String upper_case_token_object ''url''"
  "\<not> HasTypedField EJson_Array upper_case_token_object ''availableTransports''"
  "Find upper_case_token_object ''connectionId'' = Some (Some (FJsonValueString ''abc123''))"
  "Find upper_case_token_object ''connectionToken'' = Some (Some (FJsonValueString ''tok456''))"
  "stored_identifier upper_case_token_object before = ''tok456''"
  by (simp_all add: upper_case_token_object_def evaluate_fields)

lemma transports_string_fields:
  "\<not> HasField transports_string_object ''error''"
  "\<not> HasField transports_string_object ''ProtocolVersion''"
  "\<not> HasTypedField EJson_String transports_string_object ''url''"
  "HasField transports_string_object ''availableTransports''"
  "\<not> HasTypedField EJson_Array transports_string_object ''availableTransports''"
  "stored_identifier transports_string_object before = ''abc123''"
  by (simp_all add: transports_string_object_def evaluate_fields)

lemma url_number_fields:
  "\<not> HasField url_number_object ''error''"
  "\<not> HasField url_number_object ''ProtocolVersion''"
  "HasField url_number_object ''url''"
  "\<not> HasTypedField EJson_String url_number_object ''url''"
  "HasTypedField EJson_Array url_number_object ''availableTransports''"
  "GetArrayField url_number_object ''availableTransports'' = [WebSockets_Text_entry]"
  "stored_identifier url_number_object before = ''abc123''"
  by (simp_all add: url_number_object_def evaluate_fields)

text \<open>
  C1. For a negotiate response whose status code is not 200 the handler logs the code
  and returns: the body is not parsed (the result is the same for every JSON reader), no
  transport is constructed, and the Connection is unchanged, so its transport handle and
  its connection identifier stay as they were (absent on a new Connection).
\<close>

theorem OnNegotiateResponse_not_200:
  assumes "ResponseCode Response \<noteq> 200"
  shows "OnNegotiateResponse Deserialize CreateWebSocket c InRequest (Some Response) b =
           Inr (c, [UE_LOG_Error ''Negotiate failed with status code %d''
                      [Arg_d (ResponseCode Response)]])
    \<and> (\<exists>c' calls.
           OnNegotiateResponse Deserialize CreateWebSocket c InRequest (Some Response) b
             = Inr (c', calls)
           \<and> \<not> constructs_transport calls
           \<and> Connection c' = Connection c \<and> ConnectionId c' = ConnectionId c)"
  using assms by (simp add: OnNegotiateResponse_def constructs_transport_def)

theorem OnNegotiateResponse_not_200_witness:
  "ResponseCode \<lparr>ResponseCode = 500, ContentAsString = scenario_A_body\<rparr> \<noteq> 200
   \<and> OnNegotiateResponse (reader [(scenario_A_body, scenario_A_object)]) socket_module
        example_connection None
        (Some \<lparr>ResponseCode = 500, ContentAsString = scenario_A_body\<rparr>) True
      = Inr (example_connection,
             [UE_LOG_Error ''Negotiate failed with status code %d'' [Arg_d 500]])
   \<and> Connection example_connection = None \<and> ConnectionId example_connection = []"
proof -
  have code: "ResponseCode \<lparr>ResponseCode = 500, ContentAsString = scenario_A_body\<rparr> \<noteq> 200"
    by simp
  show ?thesis
    using code
      OnNegotiateResponse_not_200 [OF code,
        of "reader [(scenario_A_body, scenario_A_object)]" socket_module
           example_connection None True]
    by (simp add: example_connection_eq)
qed

text \<open>
  C2. For a status-200 response that the reader parses to an object with a
  \<^verbatim>\<open>ProtocolVersion\<close> field, the handler returns the Connection unchanged and constructs
  no transport, whatever else the object holds (\<^verbatim>\<open>url\<close>, \<^verbatim>\<open>availableTransports\<close>,
  \<^verbatim>\<open>connectionId\<close>, \<^verbatim>\<open>connectionToken\<close>, \<^verbatim>\<open>error\<close>).
\<close>

theorem OnNegotiateResponse_ProtocolVersion:
  assumes "ResponseCode Response = 200"
    and "Deserialize (ContentAsString Response) = (True, Some JsonObject)"
    and "HasField JsonObject ''ProtocolVersion''"
  shows "\<exists>calls. OnNegotiateResponse Deserialize CreateWebSocket c InRequest (Some Response) b
                   = Inr (c, calls)
                 \<and> \<not> constructs_transport calls"
  using assms OnNegotiateResponse_rejected
      [where Deserialize = Deserialize and Response = Response and JsonObject = JsonObject
         and CreateWebSocket = CreateWebSocket and c = c and InRequest = InRequest and b = b]
  by (simp add: rejected_no_transport)

theorem OnNegotiateResponse_ProtocolVersion_witness:
  "ResponseCode \<lparr>ResponseCode = 200, ContentAsString = legacy_body\<rparr> = 200
   \<and> reader [(legacy_body, legacy_object)]
        (ContentAsString \<lparr>ResponseCode = 200, ContentAsString = legacy_body\<rparr>)
      = (True, Some legacy_object)
   \<and> HasField legacy_object ''ProtocolVersion''
   \<and> HasTypedField EJson_Array legacy_object ''availableTransports''
   \<and> HasTypedField EJson_String legacy_object ''connectionId''
   \<and> (\<exists>calls. OnNegotiateResponse (reader [(legacy_body, legacy_object)]) socket_module
                   example_connection None
                   (Some \<lparr>ResponseCode = 200, ContentAsString = legacy_body\<rparr>) True
                 = Inr (example_connection, calls)
               \<and> \<not> constructs_transport calls)"
proof -
  let ?r = "\<lparr>ResponseCode = 200, ContentAsString = legacy_body\<rparr>"
  have h1: "ResponseCode ?r = 200" by simp
  have h2: "reader [(legacy_body, legacy_object)] (ContentAsString ?r)
              = (True, Some legacy_object)"
    by (simp add: reader_def)
  have h3: "HasField legacy_object ''ProtocolVersion''"
    by (simp add: legacy_fields)
  have others: "HasTypedField EJson_Array legacy_object ''availableTransports''
                \<and> HasTypedField EJson_String legacy_object ''connectionId''"
    by (simp add: legacy_fields)
  show ?thesis
    using h1 h2 h3 others
      OnNegotiateResponse_ProtocolVersion
        [where Deserialize = "reader [(legacy_body, legacy_object)]" and Response = ?r
           and JsonObject = legacy_object and CreateWebSocket = socket_module
           and c = example_connection and InRequest = None and b = True]
    by blast
qed

text \<open>
  C10. For a status-200 response that the reader parses to an object with an
  \<^verbatim>\<open>error\<close> field, the handler returns with the Connection unchanged and without any
  call: no transport is constructed and no identifier is stored, also when the object
  carries \<^verbatim>\<open>connectionId\<close>, \<^verbatim>\<open>connectionToken\<close> or a compatible
  \<^verbatim>\<open>availableTransports\<close>.
\<close>

theorem OnNegotiateResponse_error_field:
  assumes "ResponseCode Response = 200"
    and "Deserialize (ContentAsString Response) = (True, Some JsonObject)"
    and "HasField JsonObject ''error''"
  shows "OnNegotiateResponse Deserialize CreateWebSocket c InRequest (Some Response) b
           = Inr (c, [])"
  using assms OnNegotiateResponse_rejected
      [where Deserialize = Deserialize and Response = Response and JsonObject = JsonObject
         and CreateWebSocket = CreateWebSocket and c = c and InRequest = InRequest and b = b]
  by simp

theorem OnNegotiateResponse_error_field_witness:
  "ResponseCode \<lparr>ResponseCode = 200, ContentAsString = error_body\<rparr> = 200
   \<and> reader [(error_body, error_object)]
        (ContentAsString \<lparr>ResponseCode = 200, ContentAsString = error_body\<rparr>)
      = (True, Some error_object)
   \<and> HasField error_object ''error''
   \<and> HasTypedField EJson_Array error_object ''availableTransports''
   \<and> (\<exists>entry \<in> set (GetArrayField error_object ''availableTransports'').
         advertises_WebSockets_Text entry)
   \<and> HasTypedField EJson_String error_object ''connectionId''
   \<and> HasTypedField EJson_String error_object ''connectionToken''
   \<and> OnNegotiateResponse (reader [(error_body, error_object)]) socket_module
        example_connection None
        (Some \<lparr>ResponseCode = 200, ContentAsString = error_body\<rparr>) True
      = Inr (example_connection, [])"
proof -
  let ?r = "\<lparr>ResponseCode = 200, ContentAsString = error_body\<rparr>"
  have h1: "ResponseCode ?r = 200" by simp
  have h2: "reader [(error_body, error_object)] (ContentAsString ?r)
              = (True, Some error_object)"
    by (simp add: reader_def)
  have h3: "HasField error_object ''error''"
    by (simp add: error_fields)
  have others: "HasTypedField EJson_Array error_object ''availableTransports''
      \<and> (\<exists>entry \<in> set (GetArrayField error_object ''availableTransports'').
            advertises_WebSockets_Text entry)
      \<and> HasTypedField EJson_String error_object ''connectionId''
      \<and> HasTypedField EJson_String error_object ''connectionToken''"
    by (simp add: error_fields example_entries)
  show ?thesis
    using h1 h2 h3 others
      OnNegotiateResponse_error_field
        [where Deserialize = "reader [(error_body, error_object)]" and Response = ?r
           and JsonObject = error_object and CreateWebSocket = socket_module
           and c = example_connection and InRequest = None and b = True]
    by simp
qed

text \<open>
  C4. \<^verbatim>\<open>Connect\<close> issues exactly one HTTP POST to
  \<^verbatim>\<open>http://{host}/negotiate?negotiateVersion=1\<close> (lemma \<open>Connect_request\<close>), but
  \<^verbatim>\<open>Negotiate\<close> never sets a header on the request, while \<^verbatim>\<open>StartWebSocket\<close> does
  pass \<^verbatim>\<open>Headers\<close> on. For a Connection configured with an \<^verbatim>\<open>Authorization\<close> header
  the request goes out with no header: the request headers are not the configured map.
\<close>

theorem Connect_drops_configured_headers:
  "Connect (new_FConnection ''example.com'' [''Authorization'' \<mapsto> ''Bearer token'']) =
     (new_FConnection ''example.com'' [''Authorization'' \<mapsto> ''Bearer token''],
      [ProcessRequest
         \<lparr>Verb = ''POST'',
          URL = ''http://example.com/negotiate?negotiateVersion=1'',
          RequestHeaders = Map.empty,
          RequestContent = [],
          OnProcessRequestComplete = Some ''FConnection::OnNegotiateResponse''\<rparr>])
   \<and> Headers (new_FConnection ''example.com'' [''Authorization'' \<mapsto> ''Bearer token''])
        ''Authorization'' = Some ''Bearer token''
   \<and> Headers (new_FConnection ''example.com'' [''Authorization'' \<mapsto> ''Bearer token''])
        \<noteq> Map.empty"
proof -
  have request: "Connect (new_FConnection ''example.com'' [''Authorization'' \<mapsto> ''Bearer token'']) =
     (new_FConnection ''example.com'' [''Authorization'' \<mapsto> ''Bearer token''],
      [ProcessRequest
         \<lparr>Verb = ''POST'',
          URL = ''http://example.com/negotiate?negotiateVersion=1'',
          RequestHeaders = Map.empty,
          RequestContent = [],
          OnProcessRequestComplete = Some ''FConnection::OnNegotiateResponse''\<rparr>])"
    by (simp add: Connect_def Negotiate_def CreateRequest_def Let_def new_FConnection_def)
  have configured:
    "Headers (new_FConnection ''example.com'' [''Authorization'' \<mapsto> ''Bearer token''])
       ''Authorization'' = Some ''Bearer token''"
    by (simp add: new_FConnection_def)
  have differ:
    "Headers (new_FConnection ''example.com'' [''Authorization'' \<mapsto> ''Bearer token''])
       \<noteq> Map.empty"
    by (simp add: new_FConnection_def)
  from request configured differ show ?thesis by blast
qed

text \<open>
  C5, as stated, fails: \<^verbatim>\<open>Send\<close> tests only that the transport handle is valid. On a
  Connection whose transport is present and does not report itself connected, the data
  is still handed to the socket.
\<close>

theorem Send_while_not_connected_counterexample:
  "\<not> IsConnected
        \<lparr>Host = ''example.com'', Headers = Map.empty, ConnectionId = ''abc123'',
         Connection = Some \<lparr>SocketUrl = ''ws://example.com'', SocketProtocol = [],
           UpgradeHeaders = Map.empty, SocketIsConnected = False, OnConnected = [],
           OnConnectionError = [], OnClosed = [], OnMessage = []\<rparr>\<rparr>
   \<and> snd (Send
        \<lparr>Host = ''example.com'', Headers = Map.empty, ConnectionId = ''abc123'',
         Connection = Some \<lparr>SocketUrl = ''ws://example.com'', SocketProtocol = [],
           UpgradeHeaders = Map.empty, SocketIsConnected = False, OnConnected = [],
           OnConnectionError = [], OnClosed = [], OnMessage = []\<rparr>\<rparr>
        ''ping'') = [Socket_Send ''ping'']"
  by (simp add: IsConnected_def Send_def)

text \<open>
  C5, amended. For every call of \<^verbatim>\<open>Send\<close>: if the transport is present, the data is
  forwarded to it unmodified, whether or not it reports itself connected; if no transport
  is present, the only call is the error log and the data is dropped. In both cases the
  Connection is unchanged and the function returns (it has no failing branch).
\<close>

theorem Send_forwards_when_transport_present:
  "(Connection c \<noteq> None \<longrightarrow> Send c Data = (c, [Socket_Send Data]))
   \<and> (Connection c = None \<longrightarrow>
        Send c Data = (c, [UE_LOG_Error ''Cannot send data to non connected websocket.'' []]))"
  by (simp add: Send_def split: option.splits)

theorem Send_forwards_when_transport_present_witness:
  "Connection (fst (StartWebSocket socket_module example_connection)) \<noteq> None
   \<and> \<not> IsConnected (fst (StartWebSocket socket_module example_connection))
   \<and> Send (fst (StartWebSocket socket_module example_connection)) ''ping''
       = (fst (StartWebSocket socket_module example_connection), [Socket_Send ''ping''])
   \<and> Connection example_connection = None
   \<and> Send example_connection ''ping''
       = (example_connection,
          [UE_LOG_Error ''Cannot send data to non connected websocket.'' []])"
proof -
  have present: "Connection (fst (StartWebSocket socket_module example_connection)) \<noteq> None"
    by (simp add: StartWebSocket_def socket_module_def Let_def)
  have silent: "\<not> IsConnected (fst (StartWebSocket socket_module example_connection))"
    by (simp add: StartWebSocket_def socket_module_def Let_def IsConnected_def)
  have absent: "Connection example_connection = None"
    by (simp add: example_connection_eq)
  show ?thesis
    using present silent absent
      Send_forwards_when_transport_present
        [of "fst (StartWebSocket socket_module example_connection)" "''ping''"]
      Send_forwards_when_transport_present [of example_connection "''ping''"]
    by simp
qed

text \<open>
  C3, as stated, fails: the handler compares \<^verbatim>\<open>transport\<close> and the transfer formats with
  \<^verbatim>\<open>operator==\<close> of \<^verbatim>\<open>FString\<close>, which disregards letter case. For the status-200 body
  \<^verbatim>\<open>{"availableTransports":[{"transport":"websockets","transferFormats":["text"]}],"connectionId":"abc123"}\<close>
  the only entry has the transport \<^verbatim>\<open>websockets\<close>, which is not the string
  \<^verbatim>\<open>WebSockets\<close>, and the format \<^verbatim>\<open>text\<close>, which is not the string \<^verbatim>\<open>Text\<close>; the
  transport is constructed all the same.
\<close>

theorem availableTransports_letter_case_counterexample:
  "GetArrayField lower_case_object ''availableTransports''
     = [Some (FJsonValueObject
          [(''transport'', Some (FJsonValueString ''websockets'')),
           (''transferFormats'', Some (FJsonValueArray [Some (FJsonValueString ''text'')]))])]
   \<and> ''websockets'' \<noteq> ''WebSockets''
   \<and> ''text'' \<noteq> ''Text''
   \<and> OnNegotiateResponse (reader [(lower_case_body, lower_case_object)]) socket_module
         example_connection None
         (Some \<lparr>ResponseCode = 200, ContentAsString = lower_case_body\<rparr>) True
       = Inr (StartWebSocket socket_module (example_connection\<lparr>ConnectionId := ''abc123''\<rparr>))
   \<and> constructs_transport
         (snd (StartWebSocket socket_module (example_connection\<lparr>ConnectionId := ''abc123''\<rparr>)))"
proof -
  let ?r = "\<lparr>ResponseCode = 200, ContentAsString = lower_case_body\<rparr>"
  have h1: "ResponseCode ?r = 200" by simp
  have h2: "reader [(lower_case_body, lower_case_object)] (ContentAsString ?r)
              = (True, Some lower_case_object)"
    by (simp add: reader_def)
  have entries: "GetArrayField lower_case_object ''availableTransports''
     = [Some (FJsonValueObject
          [(''transport'', Some (FJsonValueString ''websockets'')),
           (''transferFormats'', Some (FJsonValueArray [Some (FJsonValueString ''text'')]))])]"
    by (simp add: lower_case_fields websockets_text_entry_def)
  have run: "OnNegotiateResponse (reader [(lower_case_body, lower_case_object)]) socket_module
         example_connection None (Some ?r) True
       = Inr (StartWebSocket socket_module (example_connection\<lparr>ConnectionId := ''abc123''\<rparr>))"
    using OnNegotiateResponse_cases
      [where Deserialize = "reader [(lower_case_body, lower_case_object)]" and Response = ?r
         and JsonObject = lower_case_object and CreateWebSocket = socket_module
         and c = example_connection and InRequest = None and b = True, OF h1 h2]
    by (simp add: lower_case_fields example_entries)
  show ?thesis
    by (intro conjI entries run StartWebSocket_constructs) simp_all
qed

text \<open>
  C3, amended. For a status-200 response that the reader parses to an object, names and
  strings being compared as the engine compares them (up to letter case): if the object
  has an \<^verbatim>\<open>availableTransports\<close> array, a transport is constructed only if some entry of
  the array is an object whose \<^verbatim>\<open>transport\<close> equals \<^verbatim>\<open>WebSockets\<close> and whose
  \<^verbatim>\<open>transferFormats\<close> array contains a string equal to \<^verbatim>\<open>Text\<close>, and if no entry is,
  the handler returns the Connection unchanged with no transport constructed. If the
  object has no \<^verbatim>\<open>availableTransports\<close> field at all, the check is skipped: once the
  earlier tests (\<^verbatim>\<open>error\<close>, \<^verbatim>\<open>ProtocolVersion\<close>, string \<^verbatim>\<open>url\<close>) are passed the handler
  stores the identifier and starts the socket, and in every case its outcome is the one
  it has for the same object with a compatible \<^verbatim>\<open>availableTransports\<close> array added.
\<close>

theorem OnNegotiateResponse_availableTransports:
  assumes "ResponseCode Response = 200"
    and "Deserialize (ContentAsString Response) = (True, Some JsonObject)"
    and "OnNegotiateResponse Deserialize CreateWebSocket c InRequest (Some Response) b
           = Inr (c', calls)"
  shows "(HasTypedField EJson_Array JsonObject ''availableTransports'' \<longrightarrow>
            (constructs_transport calls \<longrightarrow>
               (\<exists>entry \<in> set (GetArrayField JsonObject ''availableTransports'').
                  advertises_WebSockets_Text entry))
          \<and> ((\<forall>entry \<in> set (GetArrayField JsonObject ''availableTransports'').
                  \<not> advertises_WebSockets_Text entry)
               \<longrightarrow> c' = c \<and> \<not> constructs_transport calls))
       \<and> (Find JsonObject ''availableTransports'' = None \<longrightarrow>
            (\<not> HasField JsonObject ''error'' \<and> \<not> HasField JsonObject ''ProtocolVersion''
               \<and> \<not> HasTypedField EJson_String JsonObject ''url''
             \<longrightarrow> (c', calls) = StartWebSocket CreateWebSocket
                     (c\<lparr>ConnectionId := stored_identifier JsonObject (ConnectionId c)\<rparr>)
                 \<and> constructs_transport calls)
          \<and> (ResponseCode Response' = 200
               \<and> Deserialize (ContentAsString Response')
                   = (True, Some (Add JsonObject ''availableTransports''
                                    (Some (FJsonValueArray transports))))
               \<and> (\<exists>entry \<in> set transports. advertises_WebSockets_Text entry)
             \<longrightarrow> OnNegotiateResponse Deserialize CreateWebSocket c InRequest (Some Response') b
                   = Inr (c', calls)))"
proof -
  note result = OnNegotiateResponse_cases
      [where Deserialize = Deserialize and Response = Response and JsonObject = JsonObject
         and CreateWebSocket = CreateWebSocket and c = c and InRequest = InRequest and b = b,
       OF assms(1,2)]
  have only_if: "constructs_transport calls \<longrightarrow>
      (\<exists>entry \<in> set (GetArrayField JsonObject ''availableTransports'').
          advertises_WebSockets_Text entry)"
    if "HasTypedField EJson_Array JsonObject ''availableTransports''"
    using that result assms(3) by (auto simp: rejected_no_transport split: if_splits)
  have aborts: "c' = c \<and> \<not> constructs_transport calls"
    if "HasTypedField EJson_Array JsonObject ''availableTransports''"
      and "\<forall>entry \<in> set (GetArrayField JsonObject ''availableTransports'').
             \<not> advertises_WebSockets_Text entry"
    using that result assms(3) by (auto simp: rejected_no_transport split: if_splits)
  have absent: "\<not> HasTypedField EJson_Array JsonObject ''availableTransports''"
    if "Find JsonObject ''availableTransports'' = None"
    using that by (simp add: absent_field)
  have proceeds: "(c', calls) = StartWebSocket CreateWebSocket
                     (c\<lparr>ConnectionId := stored_identifier JsonObject (ConnectionId c)\<rparr>)
                 \<and> constructs_transport calls"
    if "Find JsonObject ''availableTransports'' = None"
      and "\<not> HasField JsonObject ''error'' \<and> \<not> HasField JsonObject ''ProtocolVersion''
               \<and> \<not> HasTypedField EJson_String JsonObject ''url''"
  proof -
    have "(c', calls) = StartWebSocket CreateWebSocket
                     (c\<lparr>ConnectionId := stored_identifier JsonObject (ConnectionId c)\<rparr>)"
      using that absent result assms(3) by simp
    then show ?thesis
      using StartWebSocket_constructs
        [of CreateWebSocket "c\<lparr>ConnectionId := stored_identifier JsonObject (ConnectionId c)\<rparr>"]
      by (metis snd_conv)
  qed
  have as_compatible:
    "OnNegotiateResponse Deserialize CreateWebSocket c InRequest (Some Response') b
       = Inr (c', calls)"
    if "Find JsonObject ''availableTransports'' = None"
      and "ResponseCode Response' = 200"
      and "Deserialize (ContentAsString Response')
             = (True, Some (Add JsonObject ''availableTransports''
                              (Some (FJsonValueArray transports))))"
      and "\<exists>entry \<in> set transports. advertises_WebSockets_Text entry"
  proof -
    note result' = OnNegotiateResponse_cases
      [where Deserialize = Deserialize and Response = Response'
         and JsonObject = "Add JsonObject ''availableTransports'' (Some (FJsonValueArray transports))"
         and CreateWebSocket = CreateWebSocket and c = c and InRequest = InRequest and b = b,
       OF that(2,3)]
    show ?thesis
      using result result' assms(3) absent [OF that(1)] that(4)
      by (simp add: other_field stored_identifier_other_field array_field field_names)
  qed
  from only_if aborts proceeds as_compatible show ?thesis by blast
qed


theorem OnNegotiateResponse_availableTransports_witness:
  "(ResponseCode \<lparr>ResponseCode = 200, ContentAsString = scenario_A_body\<rparr> = 200
    \<and> reader [(scenario_A_body, scenario_A_object)]
         (ContentAsString \<lparr>ResponseCode = 200, ContentAsString = scenario_A_body\<rparr>)
        = (True, Some scenario_A_object)
    \<and> OnNegotiateResponse (reader [(scenario_A_body, scenario_A_object)]) socket_module
         example_connection None
         (Some \<lparr>ResponseCode = 200, ContentAsString = scenario_A_body\<rparr>) True
        = Inr (fst (StartWebSocket socket_module (example_connection\<lparr>ConnectionId := ''abc123''\<rparr>)),
               snd (StartWebSocket socket_module (example_connection\<lparr>ConnectionId := ''abc123''\<rparr>)))
    \<and> HasTypedField EJson_Array scenario_A_object ''availableTransports''
    \<and> constructs_transport
         (snd (StartWebSocket socket_module (example_connection\<lparr>ConnectionId := ''abc123''\<rparr>)))
    \<and> (\<exists>entry \<in> set (GetArrayField scenario_A_object ''availableTransports'').
          advertises_WebSockets_Text entry))
   \<and> (ResponseCode \<lparr>ResponseCode = 200, ContentAsString = scenario_D_body\<rparr> = 200
    \<and> reader [(scenario_D_body, scenario_D_object)]
         (ContentAsString \<lparr>ResponseCode = 200, ContentAsString = scenario_D_body\<rparr>)
        = (True, Some scenario_D_object)
    \<and> OnNegotiateResponse (reader [(scenario_D_body, scenario_D_object)]) socket_module
         example_connection None
         (Some \<lparr>ResponseCode = 200, ContentAsString = scenario_D_body\<rparr>) True
        = Inr (example_connection,
               [UE_LOG_Error ''The server does not support WebSockets which is currently the only transport supported by this client.'' []])
    \<and> HasTypedField EJson_Array scenario_D_object ''availableTransports''
    \<and> GetArrayField scenario_D_object ''availableTransports'' = [LongPolling_Text_entry]
    \<and> \<not> advertises_WebSockets_Text LongPolling_Text_entry
    \<and> \<not> constructs_transport
         [UE_LOG_Error ''The server does not support WebSockets which is currently the only transport supported by this client.'' []])
   \<and> (ResponseCode \<lparr>ResponseCode = 200, ContentAsString = identifier_only_body\<rparr> = 200
    \<and> reader [(identifier_only_body, identifier_only_object),
               (scenario_A_body, Add identifier_only_object ''availableTransports''
                                   (Some (FJsonValueArray [WebSockets_Text_entry])))]
         (ContentAsString \<lparr>ResponseCode = 200, ContentAsString = identifier_only_body\<rparr>)
        = (True, Some identifier_only_object)
    \<and> OnNegotiateResponse
         (reader [(identifier_only_body, identifier_only_object),
                  (scenario_A_body, Add identifier_only_object ''availableTransports''
                                      (Some (FJsonValueArray [WebSockets_Text_entry])))])
         socket_module example_connection None
         (Some \<lparr>ResponseCode = 200, ContentAsString = identifier_only_body\<rparr>) True
        = Inr (fst (StartWebSocket socket_module (example_connection\<lparr>ConnectionId := ''abc123''\<rparr>)),
               snd (StartWebSocket socket_module (example_connection\<lparr>ConnectionId := ''abc123''\<rparr>)))
    \<and> Find identifier_only_object ''availableTransports'' = None
    \<and> \<not> HasField identifier_only_object ''error''
    \<and> \<not> HasField identifier_only_object ''ProtocolVersion''
    \<and> \<not> HasTypedField EJson_String identifier_only_object ''url''
    \<and> constructs_transport
         (snd (StartWebSocket socket_module (example_connection\<lparr>ConnectionId := ''abc123''\<rparr>)))
    \<and> ResponseCode \<lparr>ResponseCode = 200, ContentAsString = scenario_A_body\<rparr> = 200
    \<and> reader [(identifier_only_body, identifier_only_object),
               (scenario_A_body, Add identifier_only_object ''availableTransports''
                                   (Some (FJsonValueArray [WebSockets_Text_entry])))]
         (ContentAsString \<lparr>ResponseCode = 200, ContentAsString = scenario_A_body\<rparr>)
        = (True, Some (Add identifier_only_object ''availableTransports''
                         (Some (FJsonValueArray [WebSockets_Text_entry]))))
    \<and> (\<exists>entry \<in> set [WebSockets_Text_entry]. advertises_WebSockets_Text entry)
    \<and> OnNegotiateResponse
         (reader [(identifier_only_body, identifier_only_object),
                  (scenario_A_body, Add identifier_only_object ''availableTransports''
                                      (Some (FJsonValueArray [WebSockets_Text_entry])))])
         socket_module example_connection None
         (Some \<lparr>ResponseCode = 200, ContentAsString = scenario_A_body\<rparr>) True
        = Inr (fst (StartWebSocket socket_module (example_connection\<lparr>ConnectionId := ''abc123''\<rparr>)),
               snd (StartWebSocket socket_module (example_connection\<lparr>ConnectionId := ''abc123''\<rparr>))))"
  (is "?A \<and> ?D \<and> ?I")
proof -
  let ?started = "StartWebSocket socket_module (example_connection\<lparr>ConnectionId := ''abc123''\<rparr>)"
  let ?rA = "\<lparr>ResponseCode = 200, ContentAsString = scenario_A_body\<rparr>"
  let ?rD = "\<lparr>ResponseCode = 200, ContentAsString = scenario_D_body\<rparr>"
  let ?rI = "\<lparr>ResponseCode = 200, ContentAsString = identifier_only_body\<rparr>"
  let ?both = "reader [(identifier_only_body, identifier_only_object),
                  (scenario_A_body, Add identifier_only_object ''availableTransports''
                                      (Some (FJsonValueArray [WebSockets_Text_entry])))]"
  have a1: "ResponseCode ?rA = 200" by simp
  have a2: "reader [(scenario_A_body, scenario_A_object)] (ContentAsString ?rA)
              = (True, Some scenario_A_object)"
    by (simp add: reader_def)
  have a3: "OnNegotiateResponse (reader [(scenario_A_body, scenario_A_object)]) socket_module
              example_connection None (Some ?rA) True = Inr (fst ?started, snd ?started)"
    using OnNegotiateResponse_cases
      [where Deserialize = "reader [(scenario_A_body, scenario_A_object)]" and Response = ?rA
         and JsonObject = scenario_A_object and CreateWebSocket = socket_module
         and c = example_connection and InRequest = None and b = True] a1 a2
    by (simp add: scenario_A_fields example_entries)
  have A: ?A
    using a1 a2 a3 OnNegotiateResponse_availableTransports
      [where Deserialize = "reader [(scenario_A_body, scenario_A_object)]" and Response = ?rA
         and JsonObject = scenario_A_object and CreateWebSocket = socket_module
         and c = example_connection and InRequest = None and b = True
         and c' = "fst ?started" and calls = "snd ?started"
         and Response' = "\<lparr>ResponseCode = 500, ContentAsString = []\<rparr>" and transports = "[]"]
    by (simp add: scenario_A_fields example_entries StartWebSocket_constructs)
  have d1: "ResponseCode ?rD = 200" by simp
  have d2: "reader [(scenario_D_body, scenario_D_object)] (ContentAsString ?rD)
              = (True, Some scenario_D_object)"
    by (simp add: reader_def)
  have d3: "OnNegotiateResponse (reader [(scenario_D_body, scenario_D_object)]) socket_module
              example_connection None (Some ?rD) True
            = Inr (example_connection,
               [UE_LOG_Error ''The server does not support WebSockets which is currently the only transport supported by this client.'' []])"
    using OnNegotiateResponse_cases
      [where Deserialize = "reader [(scenario_D_body, scenario_D_object)]" and Response = ?rD
         and JsonObject = scenario_D_object and CreateWebSocket = socket_module
         and c = example_connection and InRequest = None and b = True] d1 d2
    by (simp add: scenario_D_fields example_entries)
  have D: ?D
    using d1 d2 d3 OnNegotiateResponse_availableTransports
      [where Deserialize = "reader [(scenario_D_body, scenario_D_object)]" and Response = ?rD
         and JsonObject = scenario_D_object and CreateWebSocket = socket_module
         and c = example_connection and InRequest = None and b = True
         and c' = example_connection
         and calls = "[UE_LOG_Error ''The server does not support WebSockets which is currently the only transport supported by this client.'' []]"
         and Response' = "\<lparr>ResponseCode = 500, ContentAsString = []\<rparr>" and transports = "[]"]
    by (simp add: scenario_D_fields example_entries)
  have bodies: "scenario_A_body \<noteq> identifier_only_body"
    by (simp add: scenario_A_body_def identifier_only_body_def)
  have i1: "ResponseCode ?rI = 200" by simp
  have i2: "?both (ContentAsString ?rI) = (True, Some identifier_only_object)"
    by (simp add: reader_def)
  have i3: "OnNegotiateResponse ?both socket_module example_connection None (Some ?rI) True
              = Inr (fst ?started, snd ?started)"
    using OnNegotiateResponse_cases
      [where Deserialize = ?both and Response = ?rI
         and JsonObject = identifier_only_object and CreateWebSocket = socket_module
         and c = example_connection and InRequest = None and b = True] i1 i2
    by (simp add: identifier_only_fields)
  have i4: "?both (ContentAsString ?rA)
              = (True, Some (Add identifier_only_object ''availableTransports''
                               (Some (FJsonValueArray [WebSockets_Text_entry]))))"
    using bodies by (simp add: reader_def)
  have i5: "\<exists>entry \<in> set [WebSockets_Text_entry]. advertises_WebSockets_Text entry"
    by (simp add: example_entries)
  have I: ?I
    using a1 i1 i2 i3 i4 i5 OnNegotiateResponse_availableTransports
      [where Deserialize = ?both and Response = ?rI
         and JsonObject = identifier_only_object and CreateWebSocket = socket_module
         and c = example_connection and InRequest = None and b = True
         and c' = "fst ?started" and calls = "snd ?started"
         and Response' = ?rA and transports = "[WebSockets_Text_entry]"]
    by (simp add: identifier_only_fields StartWebSocket_constructs)
  show ?thesis by (rule conjI [OF A conjI [OF D I]])
qed

text \<open>
  C6, as stated, fails: the fields are looked up by name up to letter case. In the
  status-200 body \<^verbatim>\<open>{"connectionId":"abc123","CONNECTIONTOKEN":"tok456"}\<close> the only one of
  the two fields present under its name is \<^verbatim>\<open>connectionId\<close>, and yet the identifier
  stored is \<^verbatim>\<open>tok456\<close>, found under \<^verbatim>\<open>CONNECTIONTOKEN\<close>.
\<close>

theorem connectionToken_letter_case_counterexample:
  "upper_case_token_object
     = [(''connectionId'', Some (FJsonValueString ''abc123'')),
        (''CONNECTIONTOKEN'', Some (FJsonValueString ''tok456''))]
   \<and> map_of upper_case_token_object ''connectionId''
       = Some (Some (FJsonValueString ''abc123''))
   \<and> map_of upper_case_token_object ''connectionToken'' = None
   \<and> OnNegotiateResponse (reader [(upper_case_token_body, upper_case_token_object)])
         socket_module example_connection None
         (Some \<lparr>ResponseCode = 200, ContentAsString = upper_case_token_body\<rparr>) True
       = Inr (StartWebSocket socket_module (example_connection\<lparr>ConnectionId := ''tok456''\<rparr>))
   \<and> ConnectionId
         (fst (StartWebSocket socket_module (example_connection\<lparr>ConnectionId := ''tok456''\<rparr>)))
       = ''tok456''
   \<and> ''tok456'' \<noteq> ''abc123''"
proof -
  let ?r = "\<lparr>ResponseCode = 200, ContentAsString = upper_case_token_body\<rparr>"
  have h1: "ResponseCode ?r = 200" by simp
  have h2: "reader [(upper_case_token_body, upper_case_token_object)] (ContentAsString ?r)
              = (True, Some upper_case_token_object)"
    by (simp add: reader_def)
  have run: "OnNegotiateResponse (reader [(upper_case_token_body, upper_case_token_object)])
         socket_module example_connection None (Some ?r) True
       = Inr (StartWebSocket socket_module (example_connection\<lparr>ConnectionId := ''tok456''\<rparr>))"
    using OnNegotiateResponse_cases
      [where Deserialize = "reader [(upper_case_token_body, upper_case_token_object)]"
         and Response = ?r
         and JsonObject = upper_case_token_object and CreateWebSocket = socket_module
         and c = example_connection and InRequest = None and b = True, OF h1 h2]
    by (simp add: upper_case_token_fields)
  show ?thesis
    by (intro conjI run) (simp_all add: upper_case_token_object_def StartWebSocket_members)
qed

text \<open>
  C6, amended. For a response that passes validation (status 200, parsed, no \<^verbatim>\<open>error\<close>,
  no \<^verbatim>\<open>ProtocolVersion\<close>, no string \<^verbatim>\<open>url\<close>, and a compatible entry if there is an
  \<^verbatim>\<open>availableTransports\<close> array), field names being matched as the engine matches them
  (up to letter case): if the object carries both a string \<^verbatim>\<open>connectionId\<close> and a string
  \<^verbatim>\<open>connectionToken\<close>, the stored identifier is the value of \<^verbatim>\<open>connectionToken\<close>, the
  field read last; if only one of the two is a string field of the object, the stored
  identifier is its value.
\<close>

theorem OnNegotiateResponse_identifier:
  assumes "ResponseCode Response = 200"
    and "Deserialize (ContentAsString Response) = (True, Some JsonObject)"
    and "\<not> HasField JsonObject ''error''"
    and "\<not> HasField JsonObject ''ProtocolVersion''"
    and "\<not> HasTypedField EJson_String JsonObject ''url''"
    and "HasTypedField EJson_Array JsonObject ''availableTransports'' \<longrightarrow>
           (\<exists>entry \<in> set (GetArrayField JsonObject ''availableTransports'').
              advertises_WebSockets_Text entry)"
    and "OnNegotiateResponse Deserialize CreateWebSocket c InRequest (Some Response) b
           = Inr (c', calls)"
  shows "(Find JsonObject ''connectionId'' = Some (Some (FJsonValueString ident))
            \<and> Find JsonObject ''connectionToken'' = Some (Some (FJsonValueString token))
          \<longrightarrow> ConnectionId c' = token)
       \<and> (Find JsonObject ''connectionId'' = Some (Some (FJsonValueString ident))
            \<and> \<not> HasTypedField EJson_String JsonObject ''connectionToken''
          \<longrightarrow> ConnectionId c' = ident)
       \<and> (Find JsonObject ''connectionToken'' = Some (Some (FJsonValueString token))
            \<and> \<not> HasTypedField EJson_String JsonObject ''connectionId''
          \<longrightarrow> ConnectionId c' = token)"
proof -
  have compatible:
    "\<not> (HasTypedField EJson_Array JsonObject ''availableTransports''
        \<and> \<not> (\<exists>entry \<in> set (GetArrayField JsonObject ''availableTransports'').
                advertises_WebSockets_Text entry))"
    using assms(6) by blast
  have "OnNegotiateResponse Deserialize CreateWebSocket c InRequest (Some Response) b
          = Inr (StartWebSocket CreateWebSocket
                   (c\<lparr>ConnectionId := stored_identifier JsonObject (ConnectionId c)\<rparr>))"
    using compatible OnNegotiateResponse_validated
      [where Deserialize = Deserialize and Response = Response and JsonObject = JsonObject
         and CreateWebSocket = CreateWebSocket and c = c and InRequest = InRequest and b = b,
       OF assms(1-5)]
    by (simp only: if_False)
  with assms(7) have "c' = fst (StartWebSocket CreateWebSocket
          (c\<lparr>ConnectionId := stored_identifier JsonObject (ConnectionId c)\<rparr>))"
    by (metis fst_conv sum.inject(2))
  then have stored: "ConnectionId c' = stored_identifier JsonObject (ConnectionId c)"
    by (simp add: StartWebSocket_members)
  show ?thesis
    unfolding stored by (auto simp: stored_identifier_strings)
qed

theorem OnNegotiateResponse_identifier_witness:
  "(ResponseCode \<lparr>ResponseCode = 200, ContentAsString = both_identifiers_body\<rparr> = 200
    \<and> reader [(both_identifiers_body, both_identifiers_object)]
         (ContentAsString \<lparr>ResponseCode = 200, ContentAsString = both_identifiers_body\<rparr>)
        = (True, Some both_identifiers_object)
    \<and> \<not> HasField both_identifiers_object ''error''
    \<and> \<not> HasField both_identifiers_object ''ProtocolVersion''
    \<and> \<not> HasTypedField EJson_String both_identifiers_object ''url''
    \<and> \<not> HasTypedField EJson_Array both_identifiers_object ''availableTransports''
    \<and> Find both_identifiers_object ''connectionId'' = Some (Some (FJsonValueString ''abc123''))
    \<and> Find both_identifiers_object ''connectionToken'' = Some (Some (FJsonValueString ''tok456''))
    \<and> (\<exists>c' calls.
          OnNegotiateResponse (reader [(both_identifiers_body, both_identifiers_object)])
            socket_module example_connection None
            (Some \<lparr>ResponseCode = 200, ContentAsString = both_identifiers_body\<rparr>) True
          = Inr (c', calls) \<and> ConnectionId c' = ''tok456''))
   \<and> (ResponseCode \<lparr>ResponseCode = 200, ContentAsString = identifier_only_body\<rparr> = 200
    \<and> reader [(identifier_only_body, identifier_only_object)]
         (ContentAsString \<lparr>ResponseCode = 200, ContentAsString = identifier_only_body\<rparr>)
        = (True, Some identifier_only_object)
    \<and> \<not> HasField identifier_only_object ''error''
    \<and> \<not> HasField identifier_only_object ''ProtocolVersion''
    \<and> \<not> HasTypedField EJson_String identifier_only_object ''url''
    \<and> \<not> HasTypedField EJson_Array identifier_only_object ''availableTransports''
    \<and> Find identifier_only_object ''connectionId'' = Some (Some (FJsonValueString ''abc123''))
    \<and> \<not> HasTypedField EJson_String identifier_only_object ''connectionToken''
    \<and> (\<exists>c' calls.
          OnNegotiateResponse (reader [(identifier_only_body, identifier_only_object)])
            socket_module example_connection None
            (Some \<lparr>ResponseCode = 200, ContentAsString = identifier_only_body\<rparr>) True
          = Inr (c', calls) \<and> ConnectionId c' = ''abc123''))
   \<and> (ResponseCode \<lparr>ResponseCode = 200, ContentAsString = token_only_body\<rparr> = 200
    \<and> reader [(token_only_body, token_only_object)]
         (ContentAsString \<lparr>ResponseCode = 200, ContentAsString = token_only_body\<rparr>)
        = (True, Some token_only_object)
    \<and> \<not> HasField token_only_object ''error''
    \<and> \<not> HasField token_only_object ''ProtocolVersion''
    \<and> \<not> HasTypedField EJson_String token_only_object ''url''
    \<and> \<not> HasTypedField EJson_Array token_only_object ''availableTransports''
    \<and> Find token_only_object ''connectionToken'' = Some (Some (FJsonValueString ''tok456''))
    \<and> \<not> HasTypedField EJson_String token_only_object ''connectionId''
    \<and> (\<exists>c' calls.
          OnNegotiateResponse (reader [(token_only_body, token_only_object)])
            socket_module example_connection None
            (Some \<lparr>ResponseCode = 200, ContentAsString = token_only_body\<rparr>) True
          = Inr (c', calls) \<and> ConnectionId c' = ''tok456''))
   \<and> (ResponseCode \<lparr>ResponseCode = 200, ContentAsString = upper_case_token_body\<rparr> = 200
    \<and> reader [(upper_case_token_body, upper_case_token_object)]
         (ContentAsString \<lparr>ResponseCode = 200, ContentAsString = upper_case_token_body\<rparr>)
        = (True, Some upper_case_token_object)
    \<and> \<not> HasField upper_case_token_object ''error''
    \<and> \<not> HasField upper_case_token_object ''ProtocolVersion''
    \<and> \<not> HasTypedField EJson_String upper_case_token_object ''url''
    \<and> \<not> HasTypedField EJson_Array upper_case_token_object ''availableTransports''
    \<and> Find upper_case_token_object ''connectionId'' = Some (Some (FJsonValueString ''abc123''))
    \<and> Find upper_case_token_object ''connectionToken'' = Some (Some (FJsonValueString ''tok456''))
    \<and> (\<exists>c' calls.
          OnNegotiateResponse (reader [(upper_case_token_body, upper_case_token_object)])
            socket_module example_connection None
            (Some \<lparr>ResponseCode = 200, ContentAsString = upper_case_token_body\<rparr>) True
          = Inr (c', calls) \<and> ConnectionId c' = ''tok456''))"
  (is "?B \<and> ?I \<and> ?T \<and> ?U")
proof -
  have b1: "ResponseCode \<lparr>ResponseCode = 200, ContentAsString = both_identifiers_body\<rparr> = 200" by simp
  have b2: "reader [(both_identifiers_body, both_identifiers_object)] (ContentAsString \<lparr>ResponseCode = 200, ContentAsString = both_identifiers_body\<rparr>) = (True, Some both_identifiers_object)"
    by (simp add: reader_def)
  have b6: "HasTypedField EJson_Array both_identifiers_object ''availableTransports'' \<longrightarrow>
          (\<exists>entry \<in> set (GetArrayField both_identifiers_object ''availableTransports'').
             advertises_WebSockets_Text entry)"
    by (simp add: both_identifiers_fields)
  let ?sb = "StartWebSocket socket_module (example_connection\<lparr>ConnectionId := ''tok456''\<rparr>)"
  have b7:
    "OnNegotiateResponse (reader [(both_identifiers_body, both_identifiers_object)]) socket_module example_connection None (Some \<lparr>ResponseCode = 200, ContentAsString = both_identifiers_body\<rparr>) True
       = Inr (fst ?sb, snd ?sb)"
    using OnNegotiateResponse_cases
      [where Deserialize = "reader [(both_identifiers_body, both_identifiers_object)]" and Response = "\<lparr>ResponseCode = 200, ContentAsString = both_identifiers_body\<rparr>" and JsonObject = both_identifiers_object
         and CreateWebSocket = socket_module and c = example_connection
         and InRequest = None and b = True, OF b1 b2]
    by (simp add: both_identifiers_fields)
  have b8: "ConnectionId (fst ?sb) = ''tok456''"
    using both_identifiers_fields(5,6) OnNegotiateResponse_identifier
      [where Deserialize = "reader [(both_identifiers_body, both_identifiers_object)]" and Response = "\<lparr>ResponseCode = 200, ContentAsString = both_identifiers_body\<rparr>" and JsonObject = both_identifiers_object
         and CreateWebSocket = socket_module and c = example_connection
         and InRequest = None and b = True and c' = "fst ?sb" and calls = "snd ?sb"
         and ident = "''abc123''" and token = "''tok456''",
       OF b1 b2 both_identifiers_fields(1,2,3) b6 b7]
    by blast
  have b9: "\<exists>c' calls.
      OnNegotiateResponse (reader [(both_identifiers_body, both_identifiers_object)]) socket_module example_connection None (Some \<lparr>ResponseCode = 200, ContentAsString = both_identifiers_body\<rparr>) True
        = Inr (c', calls) \<and> ConnectionId c' = ''tok456''"
    using b7 b8 by blast
  have B: ?B
    by (intro conjI b1 b2 b9 both_identifiers_fields(1-6))
  have i1: "ResponseCode \<lparr>ResponseCode = 200, ContentAsString = identifier_only_body\<rparr> = 200" by simp
  have i2: "reader [(identifier_only_body, identifier_only_object)] (ContentAsString \<lparr>ResponseCode = 200, ContentAsString = identifier_only_body\<rparr>) = (True, Some identifier_only_object)"
    by (simp add: reader_def)
  have i6: "HasTypedField EJson_Array identifier_only_object ''availableTransports'' \<longrightarrow>
          (\<exists>entry \<in> set (GetArrayField identifier_only_object ''availableTransports'').
             advertises_WebSockets_Text entry)"
    by (simp add: identifier_only_fields)
  let ?si = "StartWebSocket socket_module (example_connection\<lparr>ConnectionId := ''abc123''\<rparr>)"
  have i7:
    "OnNegotiateResponse (reader [(identifier_only_body, identifier_only_object)]) socket_module example_connection None (Some \<lparr>ResponseCode = 200, ContentAsString = identifier_only_body\<rparr>) True
       = Inr (fst ?si, snd ?si)"
    using OnNegotiateResponse_cases
      [where Deserialize = "reader [(identifier_only_body, identifier_only_object)]" and Response = "\<lparr>ResponseCode = 200, ContentAsString = identifier_only_body\<rparr>" and JsonObject = identifier_only_object
         and CreateWebSocket = socket_module and c = example_connection
         and InRequest = None and b = True, OF i1 i2]
    by (simp add: identifier_only_fields)
  have i8: "ConnectionId (fst ?si) = ''abc123''"
    using identifier_only_identifier OnNegotiateResponse_identifier
      [where Deserialize = "reader [(identifier_only_body, identifier_only_object)]" and Response = "\<lparr>ResponseCode = 200, ContentAsString = identifier_only_body\<rparr>" and JsonObject = identifier_only_object
         and CreateWebSocket = socket_module and c = example_connection
         and InRequest = None and b = True and c' = "fst ?si" and calls = "snd ?si"
         and ident = "''abc123''" and token = "''tok456''",
       OF i1 i2 identifier_only_fields(1,2,3) i6 i7]
    by blast
  have i9: "\<exists>c' calls.
      OnNegotiateResponse (reader [(identifier_only_body, identifier_only_object)]) socket_module example_connection None (Some \<lparr>ResponseCode = 200, ContentAsString = identifier_only_body\<rparr>) True
        = Inr (c', calls) \<and> ConnectionId c' = ''abc123''"
    using i7 i8 by blast
  have I: ?I
    by (intro conjI i1 i2 i9 identifier_only_fields(1,2,3,5) identifier_only_identifier)
  have t1: "ResponseCode \<lparr>ResponseCode = 200, ContentAsString = token_only_body\<rparr> = 200" by simp
  have t2: "reader [(token_only_body, token_only_object)] (ContentAsString \<lparr>ResponseCode = 200, ContentAsString = token_only_body\<rparr>) = (True, Some token_only_object)"
    by (simp add: reader_def)
  have t6: "HasTypedField EJson_Array token_only_object ''availableTransports'' \<longrightarrow>
          (\<exists>entry \<in> set (GetArrayField token_only_object ''availableTransports'').
             advertises_WebSockets_Text entry)"
    by (simp add: token_only_fields)
  let ?st = "StartWebSocket socket_module (example_connection\<lparr>ConnectionId := ''tok456''\<rparr>)"
  have t7:
    "OnNegotiateResponse (reader [(token_only_body, token_only_object)]) socket_module example_connection None (Some \<lparr>ResponseCode = 200, ContentAsString = token_only_body\<rparr>) True
       = Inr (fst ?st, snd ?st)"
    using OnNegotiateResponse_cases
      [where Deserialize = "reader [(token_only_body, token_only_object)]" and Response = "\<lparr>ResponseCode = 200, ContentAsString = token_only_body\<rparr>" and JsonObject = token_only_object
         and CreateWebSocket = socket_module and c = example_connection
         and InRequest = None and b = True, OF t1 t2]
    by (simp add: token_only_fields)
  have t8: "ConnectionId (fst ?st) = ''tok456''"
    using token_only_fields(5,6) OnNegotiateResponse_identifier
      [where Deserialize = "reader [(token_only_body, token_only_object)]" and Response = "\<lparr>ResponseCode = 200, ContentAsString = token_only_body\<rparr>" and JsonObject = token_only_object
         and CreateWebSocket = socket_module and c = example_connection
         and InRequest = None and b = True and c' = "fst ?st" and calls = "snd ?st"
         and ident = "''abc123''" and token = "''tok456''",
       OF t1 t2 token_only_fields(1,2,3) t6 t7]
    by blast
  have t9: "\<exists>c' calls.
      OnNegotiateResponse (reader [(token_only_body, token_only_object)]) socket_module example_connection None (Some \<lparr>ResponseCode = 200, ContentAsString = token_only_body\<rparr>) True
        = Inr (c', calls) \<and> ConnectionId c' = ''tok456''"
    using t7 t8 by blast
  have T: ?T
    by (intro conjI t1 t2 t9 token_only_fields(1-6))
  have u1: "ResponseCode \<lparr>ResponseCode = 200, ContentAsString = upper_case_token_body\<rparr> = 200" by simp
  have u2: "reader [(upper_case_token_body, upper_case_token_object)] (ContentAsString \<lparr>ResponseCode = 200, ContentAsString = upper_case_token_body\<rparr>) = (True, Some upper_case_token_object)"
    by (simp add: reader_def)
  have u6: "HasTypedField EJson_Array upper_case_token_object ''availableTransports'' \<longrightarrow>
          (\<exists>entry \<in> set (GetArrayField upper_case_token_object ''availableTransports'').
             advertises_WebSockets_Text entry)"
    by (simp add: upper_case_token_fields)
  let ?su = "StartWebSocket socket_module (example_connection\<lparr>ConnectionId := ''tok456''\<rparr>)"
  have u7:
    "OnNegotiateResponse (reader [(upper_case_token_body, upper_case_token_object)]) socket_module example_connection None (Some \<lparr>ResponseCode = 200, ContentAsString = upper_case_token_body\<rparr>) True
       = Inr (fst ?su, snd ?su)"
    using OnNegotiateResponse_cases
      [where Deserialize = "reader [(upper_case_token_body, upper_case_token_object)]" and Response = "\<lparr>ResponseCode = 200, ContentAsString = upper_case_token_body\<rparr>" and JsonObject = upper_case_token_object
         and CreateWebSocket = socket_module and c = example_connection
         and InRequest = None and b = True, OF u1 u2]
    by (simp add: upper_case_token_fields)
  have u8: "ConnectionId (fst ?su) = ''tok456''"
    using upper_case_token_fields(5,6) OnNegotiateResponse_identifier
      [where Deserialize = "reader [(upper_case_token_body, upper_case_token_object)]" and Response = "\<lparr>ResponseCode = 200, ContentAsString = upper_case_token_body\<rparr>" and JsonObject = upper_case_token_object
         and CreateWebSocket = socket_module and c = example_connection
         and InRequest = None and b = True and c' = "fst ?su" and calls = "snd ?su"
         and ident = "''abc123''" and token = "''tok456''",
       OF u1 u2 upper_case_token_fields(1,2,3) u6 u7]
    by blast
  have u9: "\<exists>c' calls.
      OnNegotiateResponse (reader [(upper_case_token_body, upper_case_token_object)]) socket_module example_connection None (Some \<lparr>ResponseCode = 200, ContentAsString = upper_case_token_body\<rparr>) True
        = Inr (c', calls) \<and> ConnectionId c' = ''tok456''"
    using u7 u8 by blast
  have U: ?U
    by (intro conjI u1 u2 u9 upper_case_token_fields(1-6))
  show ?thesis by (rule conjI [OF B conjI [OF I conjI [OF T U]]])
qed

lemma scenario_A_starts_transport:
  assumes "ResponseCode Response = 200"
    and "ContentAsString Response = scenario_A_body"
    and "Deserialize scenario_A_body = (True, Some scenario_A_object)"
  shows "\<exists>c' calls.
           OnNegotiateResponse Deserialize CreateWebSocket c InRequest (Some Response) b
             = Inr (c', CreateWebSocket_call (''ws://'' @ Host c) [] (Headers c) # calls)
           \<and> \<not> constructs_transport calls
           \<and> ConnectionId c' = ''abc123'' \<and> Host c' = Host c \<and> Headers c' = Headers c
           \<and> (CreateWebSocket (''ws://'' @ Host c) [] (Headers c) = None
                \<longrightarrow> Connection c' = None)
           \<and> (CreateWebSocket (''ws://'' @ Host c) [] (Headers c) = Some ws
                \<longrightarrow> calls = [Socket_Connect]
                  \<and> Connection c' =
                      Some (ws\<lparr>OnConnected := OnConnected ws @ [Broadcast_OnConnectedEvent],
                               OnConnectionError := OnConnectionError ws
                                 @ [Log_and_Broadcast_OnConnectionErrorEvent],
                               OnClosed := OnClosed ws @ [Broadcast_OnClosedEvent],
                               OnMessage := OnMessage ws @ [Broadcast_OnMessageEvent]\<rparr>))"
proof -
  have parsed: "Deserialize (ContentAsString Response) = (True, Some scenario_A_object)"
    using assms(2,3) by simp
  have result: "OnNegotiateResponse Deserialize CreateWebSocket c InRequest (Some Response) b
          = Inr (StartWebSocket CreateWebSocket (c\<lparr>ConnectionId := ''abc123''\<rparr>))"
    using assms(1) parsed OnNegotiateResponse_validated
      [where Deserialize = Deserialize and Response = Response
         and JsonObject = scenario_A_object
         and CreateWebSocket = CreateWebSocket and c = c and InRequest = InRequest and b = b]
    by (simp add: scenario_A_fields example_entries)
  show ?thesis
    unfolding result
    by (cases "CreateWebSocket (''ws://'' @ Host c) [] (Headers c)")
      (simp_all add: StartWebSocket_def Let_def constructs_transport_def)
qed


text \<open>
  C7. Scenario A on a Connection configured with an \<^verbatim>\<open>Authorization\<close> header: the
  handler stores \<^verbatim>\<open>abc123\<close> and constructs the socket against \<^verbatim>\<open>ws://example.com\<close> with
  the empty protocol string, as stated, and hands it the configured header map. The
  negotiate request that \<^verbatim>\<open>Connect\<close> issued before carried no header at all
  (\<^verbatim>\<open>Negotiate\<close> never sets one), so the header set of the transport is not the header
  set of negotiation.
\<close>

theorem scenario_A_headers_differ_from_negotiation:
  "Connect (new_FConnection ''example.com'' example_headers)
     = (example_connection,
        [ProcessRequest
           \<lparr>Verb = ''POST'',
            URL = ''http://example.com/negotiate?negotiateVersion=1'',
            RequestHeaders = Map.empty,
            RequestContent = [],
            OnProcessRequestComplete = Some ''FConnection::OnNegotiateResponse''\<rparr>])
   \<and> OnNegotiateResponse (reader [(scenario_A_body, scenario_A_object)]) socket_module
         example_connection None
         (Some \<lparr>ResponseCode = 200, ContentAsString = scenario_A_body\<rparr>) True
       = Inr (\<lparr>Host = ''example.com'', Headers = example_headers, ConnectionId = ''abc123'',
               Connection = Some
                 \<lparr>SocketUrl = ''ws://example.com'', SocketProtocol = [],
                  UpgradeHeaders = example_headers, SocketIsConnected = False,
                  OnConnected = [Broadcast_OnConnectedEvent],
                  OnConnectionError = [Log_and_Broadcast_OnConnectionErrorEvent],
                  OnClosed = [Broadcast_OnClosedEvent],
                  OnMessage = [Broadcast_OnMessageEvent]\<rparr>\<rparr>,
              [CreateWebSocket_call ''ws://example.com'' [] example_headers, Socket_Connect])
   \<and> example_headers ''Authorization'' = Some ''Bearer token''
   \<and> example_headers \<noteq> Map.empty"
proof -
  let ?r = "\<lparr>ResponseCode = 200, ContentAsString = scenario_A_body\<rparr>"
  let ?d = "reader [(scenario_A_body, scenario_A_object)]"
  let ?ws = "\<lparr>SocketUrl = ''ws://example.com'', SocketProtocol = [],
               UpgradeHeaders = example_headers, SocketIsConnected = False,
               OnConnected = [], OnConnectionError = [], OnClosed = [], OnMessage = []\<rparr>"
  have negotiation: "Connect (new_FConnection ''example.com'' example_headers)
     = (example_connection,
        [ProcessRequest
           \<lparr>Verb = ''POST'',
            URL = ''http://example.com/negotiate?negotiateVersion=1'',
            RequestHeaders = Map.empty,
            RequestContent = [],
            OnProcessRequestComplete = Some ''FConnection::OnNegotiateResponse''\<rparr>])"
    by (simp add: Connect_request example_connection_eq new_FConnection_def)
  have h1: "ResponseCode ?r = 200" by simp
  have h2: "ContentAsString ?r = scenario_A_body" by simp
  have h3: "?d scenario_A_body = (True, Some scenario_A_object)"
    by (simp add: reader_def)
  have made: "socket_module (''ws://'' @ Host example_connection) []
                (Headers example_connection) = Some ?ws"
    by (simp add: socket_module_def example_connection_eq)
  have transport:
    "OnNegotiateResponse ?d socket_module example_connection None (Some ?r) True
       = Inr (\<lparr>Host = ''example.com'', Headers = example_headers, ConnectionId = ''abc123'',
               Connection = Some
                 \<lparr>SocketUrl = ''ws://example.com'', SocketProtocol = [],
                  UpgradeHeaders = example_headers, SocketIsConnected = False,
                  OnConnected = [Broadcast_OnConnectedEvent],
                  OnConnectionError = [Log_and_Broadcast_OnConnectionErrorEvent],
                  OnClosed = [Broadcast_OnClosedEvent],
                  OnMessage = [Broadcast_OnMessageEvent]\<rparr>\<rparr>,
              [CreateWebSocket_call ''ws://example.com'' [] example_headers, Socket_Connect])"
  proof -
    obtain c' calls where run:
      "OnNegotiateResponse ?d socket_module example_connection None (Some ?r) True
         = Inr (c', CreateWebSocket_call (''ws://'' @ Host example_connection) []
                      (Headers example_connection) # calls)"
      and members: "ConnectionId c' = ''abc123''" "Host c' = Host example_connection"
        "Headers c' = Headers example_connection"
      and started: "socket_module (''ws://'' @ Host example_connection) []
                      (Headers example_connection) = Some ?ws
          \<longrightarrow> calls = [Socket_Connect]
            \<and> Connection c' =
                Some (?ws\<lparr>OnConnected := OnConnected ?ws @ [Broadcast_OnConnectedEvent],
                         OnConnectionError := OnConnectionError ?ws
                           @ [Log_and_Broadcast_OnConnectionErrorEvent],
                         OnClosed := OnClosed ?ws @ [Broadcast_OnClosedEvent],
                         OnMessage := OnMessage ?ws @ [Broadcast_OnMessageEvent]\<rparr>)"
      using scenario_A_starts_transport
        [where Deserialize = ?d and Response = ?r and CreateWebSocket = socket_module
           and c = example_connection and InRequest = None and b = True and ws = ?ws,
         OF h1 h2 h3]
      by blast
    from started made have calls: "calls = [Socket_Connect]"
      and socket: "Connection c' = Some
                 \<lparr>SocketUrl = ''ws://example.com'', SocketProtocol = [],
                  UpgradeHeaders = example_headers, SocketIsConnected = False,
                  OnConnected = [Broadcast_OnConnectedEvent],
                  OnConnectionError = [Log_and_Broadcast_OnConnectionErrorEvent],
                  OnClosed = [Broadcast_OnClosedEvent],
                  OnMessage = [Broadcast_OnMessageEvent]\<rparr>"
      by simp_all
    have "c' = \<lparr>Host = ''example.com'', Headers = example_headers, ConnectionId = ''abc123'',
               Connection = Some
                 \<lparr>SocketUrl = ''ws://example.com'', SocketProtocol = [],
                  UpgradeHeaders = example_headers, SocketIsConnected = False,
                  OnConnected = [Broadcast_OnConnectedEvent],
                  OnConnectionError = [Log_and_Broadcast_OnConnectionErrorEvent],
                  OnClosed = [Broadcast_OnClosedEvent],
                  OnMessage = [Broadcast_OnMessageEvent]\<rparr>\<rparr>"
      using members socket by (cases c') (simp add: example_connection_eq)
    with run calls show ?thesis by (simp add: example_connection_eq)
  qed
  have configured: "example_headers ''Authorization'' = Some ''Bearer token''"
    by (simp add: example_headers_def)
  have differ: "example_headers \<noteq> Map.empty"
    by (simp add: example_headers_def)
  show ?thesis
    by (intro conjI negotiation transport configured differ)
qed

text \<open>
  C8. For a status-200 response parsed to an object whose \<^verbatim>\<open>availableTransports\<close> field
  is present and not an array, the compatibility check is skipped: once the earlier tests
  are passed the handler stores the identifier and starts the socket (a transport is
  constructed), and in every case the outcome is the one for the same object with a
  compatible \<^verbatim>\<open>availableTransports\<close> array in place of the field.
\<close>

theorem availableTransports_not_an_array:
  assumes "ResponseCode Response = 200"
    and "Deserialize (ContentAsString Response) = (True, Some JsonObject)"
    and "HasField JsonObject ''availableTransports''"
    and "\<not> HasTypedField EJson_Array JsonObject ''availableTransports''"
  shows "(\<not> HasField JsonObject ''error'' \<and> \<not> HasField JsonObject ''ProtocolVersion''
            \<and> \<not> HasTypedField EJson_String JsonObject ''url''
          \<longrightarrow> OnNegotiateResponse Deserialize CreateWebSocket c InRequest (Some Response) b
                = Inr (StartWebSocket CreateWebSocket
                         (c\<lparr>ConnectionId := stored_identifier JsonObject (ConnectionId c)\<rparr>))
              \<and> constructs_transport
                  (snd (StartWebSocket CreateWebSocket
                         (c\<lparr>ConnectionId := stored_identifier JsonObject (ConnectionId c)\<rparr>))))
       \<and> (ResponseCode Response' = 200
            \<and> Deserialize (ContentAsString Response')
                = (True, Some (Add JsonObject ''availableTransports''
                                 (Some (FJsonValueArray transports))))
            \<and> (\<exists>entry \<in> set transports. advertises_WebSockets_Text entry)
          \<longrightarrow> OnNegotiateResponse Deserialize CreateWebSocket c InRequest (Some Response) b
                = OnNegotiateResponse Deserialize CreateWebSocket c InRequest (Some Response') b)"
proof -
  note result = OnNegotiateResponse_cases
      [where Deserialize = Deserialize and Response = Response and JsonObject = JsonObject
         and CreateWebSocket = CreateWebSocket and c = c and InRequest = InRequest and b = b,
       OF assms(1,2)]
  have proceeds:
    "OnNegotiateResponse Deserialize CreateWebSocket c InRequest (Some Response) b
       = Inr (StartWebSocket CreateWebSocket
                (c\<lparr>ConnectionId := stored_identifier JsonObject (ConnectionId c)\<rparr>))"
    if "\<not> HasField JsonObject ''error'' \<and> \<not> HasField JsonObject ''ProtocolVersion''
            \<and> \<not> HasTypedField EJson_String JsonObject ''url''"
    using that result assms(4) by simp
  have as_compatible:
    "OnNegotiateResponse Deserialize CreateWebSocket c InRequest (Some Response) b
       = OnNegotiateResponse Deserialize CreateWebSocket c InRequest (Some Response') b"
    if "ResponseCode Response' = 200"
      and "Deserialize (ContentAsString Response')
             = (True, Some (Add JsonObject ''availableTransports''
                              (Some (FJsonValueArray transports))))"
      and "\<exists>entry \<in> set transports. advertises_WebSockets_Text entry"
  proof -
    note result' = OnNegotiateResponse_cases
      [where Deserialize = Deserialize and Response = Response'
         and JsonObject = "Add JsonObject ''availableTransports'' (Some (FJsonValueArray transports))"
         and CreateWebSocket = CreateWebSocket and c = c and InRequest = InRequest and b = b,
       OF that(1,2)]
    show ?thesis
      using result result' assms(4) that(3)
      by (simp add: other_field stored_identifier_other_field array_field field_names)
  qed
  from proceeds as_compatible StartWebSocket_constructs show ?thesis by blast
qed

theorem availableTransports_not_an_array_witness:
  "ResponseCode \<lparr>ResponseCode = 200, ContentAsString = transports_string_body\<rparr> = 200
   \<and> reader [(transports_string_body, transports_string_object),
              (scenario_A_body, Add transports_string_object ''availableTransports''
                                  (Some (FJsonValueArray [WebSockets_Text_entry])))]
        (ContentAsString \<lparr>ResponseCode = 200, ContentAsString = transports_string_body\<rparr>)
       = (True, Some transports_string_object)
   \<and> HasField transports_string_object ''availableTransports''
   \<and> \<not> HasTypedField EJson_Array transports_string_object ''availableTransports''
   \<and> \<not> HasField transports_string_object ''error''
   \<and> \<not> HasField transports_string_object ''ProtocolVersion''
   \<and> \<not> HasTypedField EJson_String transports_string_object ''url''
   \<and> OnNegotiateResponse
        (reader [(transports_string_body, transports_string_object),
                 (scenario_A_body, Add transports_string_object ''availableTransports''
                                     (Some (FJsonValueArray [WebSockets_Text_entry])))])
        socket_module example_connection None
        (Some \<lparr>ResponseCode = 200, ContentAsString = transports_string_body\<rparr>) True
       = Inr (StartWebSocket socket_module (example_connection\<lparr>ConnectionId := ''abc123''\<rparr>))
   \<and> constructs_transport
        (snd (StartWebSocket socket_module (example_connection\<lparr>ConnectionId := ''abc123''\<rparr>)))
   \<and> ResponseCode \<lparr>ResponseCode = 200, ContentAsString = scenario_A_body\<rparr> = 200
   \<and> reader [(transports_string_body, transports_string_object),
              (scenario_A_body, Add transports_string_object ''availableTransports''
                                  (Some (FJsonValueArray [WebSockets_Text_entry])))]
        (ContentAsString \<lparr>ResponseCode = 200, ContentAsString = scenario_A_body\<rparr>)
       = (True, Some (Add transports_string_object ''availableTransports''
                        (Some (FJsonValueArray [WebSockets_Text_entry]))))
   \<and> (\<exists>entry \<in> set [WebSockets_Text_entry]. advertises_WebSockets_Text entry)
   \<and> OnNegotiateResponse
        (reader [(transports_string_body, transports_string_object),
                 (scenario_A_body, Add transports_string_object ''availableTransports''
                                     (Some (FJsonValueArray [WebSockets_Text_entry])))])
        socket_module example_connection None
        (Some \<lparr>ResponseCode = 200, ContentAsString = transports_string_body\<rparr>) True
       = OnNegotiateResponse
        (reader [(transports_string_body, transports_string_object),
                 (scenario_A_body, Add transports_string_object ''availableTransports''
                                     (Some (FJsonValueArray [WebSockets_Text_entry])))])
        socket_module example_connection None
        (Some \<lparr>ResponseCode = 200, ContentAsString = scenario_A_body\<rparr>) True"
proof -
  let ?r = "\<lparr>ResponseCode = 200, ContentAsString = transports_string_body\<rparr>"
  let ?r' = "\<lparr>ResponseCode = 200, ContentAsString = scenario_A_body\<rparr>"
  let ?d = "reader [(transports_string_body, transports_string_object),
                 (scenario_A_body, Add transports_string_object ''availableTransports''
                                     (Some (FJsonValueArray [WebSockets_Text_entry])))]"
  have bodies: "scenario_A_body \<noteq> transports_string_body"
    by (simp add: scenario_A_body_def transports_string_body_def)
  have h1: "ResponseCode ?r = 200" by simp
  have h2: "?d (ContentAsString ?r) = (True, Some transports_string_object)"
    by (simp add: reader_def)
  have h1': "ResponseCode ?r' = 200" by simp
  have h2': "?d (ContentAsString ?r')
               = (True, Some (Add transports_string_object ''availableTransports''
                                (Some (FJsonValueArray [WebSockets_Text_entry]))))"
    using bodies by (simp add: reader_def)
  have entry: "\<exists>entry \<in> set [WebSockets_Text_entry]. advertises_WebSockets_Text entry"
    by (simp add: example_entries)
  note at_example = availableTransports_not_an_array
      [where Deserialize = ?d and Response = ?r and JsonObject = transports_string_object
         and CreateWebSocket = socket_module and c = example_connection
         and InRequest = None and b = True
         and Response' = ?r' and transports = "[WebSockets_Text_entry]",
       OF h1 h2 transports_string_fields(4,5)]
  have run: "OnNegotiateResponse ?d socket_module example_connection None (Some ?r) True
       = Inr (StartWebSocket socket_module (example_connection\<lparr>ConnectionId := ''abc123''\<rparr>))"
    using at_example by (simp add: transports_string_fields)
  have constructs: "constructs_transport
        (snd (StartWebSocket socket_module (example_connection\<lparr>ConnectionId := ''abc123''\<rparr>)))"
    using at_example by (simp add: transports_string_fields)
  have same: "OnNegotiateResponse ?d socket_module example_connection None (Some ?r) True
       = OnNegotiateResponse ?d socket_module example_connection None (Some ?r') True"
    using at_example h1' h2' entry by blast
  show ?thesis
    by (intro conjI h1 h2 transports_string_fields(1-5) run constructs h1' h2' entry same)
qed

text \<open>
  C9. For a status-200 response parsed to an object whose \<^verbatim>\<open>url\<close> field is present and
  not a string, the redirect branch is not taken: with no \<^verbatim>\<open>error\<close> and no
  \<^verbatim>\<open>ProtocolVersion\<close> field the handler goes on to the compatibility check and the
  identifier extraction (its outcome is never the silent return of the redirect branch),
  and a transport is constructed when the check passes. In every case the outcome is the
  one for the same object without the \<^verbatim>\<open>url\<close> field.
\<close>

theorem url_not_a_string:
  assumes "ResponseCode Response = 200"
    and "Deserialize (ContentAsString Response) = (True, Some JsonObject)"
    and "HasField JsonObject ''url''"
    and "\<not> HasTypedField EJson_String JsonObject ''url''"
  shows "(\<not> HasField JsonObject ''error'' \<and> \<not> HasField JsonObject ''ProtocolVersion''
          \<longrightarrow> OnNegotiateResponse Deserialize CreateWebSocket c InRequest (Some Response) b
                = Inr (if HasTypedField EJson_Array JsonObject ''availableTransports''
                          \<and> \<not> (\<exists>entry \<in> set (GetArrayField JsonObject ''availableTransports'').
                                  advertises_WebSockets_Text entry)
                       then (c, [UE_LOG_Error ''The server does not support WebSockets which is currently the only transport supported by this client.'' []])
                       else StartWebSocket CreateWebSocket
                              (c\<lparr>ConnectionId := stored_identifier JsonObject (ConnectionId c)\<rparr>))
              \<and> OnNegotiateResponse Deserialize CreateWebSocket c InRequest (Some Response) b
                  \<noteq> Inr (c, [])
              \<and> ((HasTypedField EJson_Array JsonObject ''availableTransports'' \<longrightarrow>
                    (\<exists>entry \<in> set (GetArrayField JsonObject ''availableTransports'').
                       advertises_WebSockets_Text entry))
                  \<longrightarrow> (\<exists>c' calls.
                        OnNegotiateResponse Deserialize CreateWebSocket c InRequest
                          (Some Response) b = Inr (c', calls)
                        \<and> constructs_transport calls
                        \<and> ConnectionId c' = stored_identifier JsonObject (ConnectionId c))))
       \<and> (ResponseCode Response' = 200
            \<and> Deserialize (ContentAsString Response')
                = (True, Some (Remove JsonObject ''url''))
          \<longrightarrow> OnNegotiateResponse Deserialize CreateWebSocket c InRequest (Some Response) b
                = OnNegotiateResponse Deserialize CreateWebSocket c InRequest (Some Response') b)"
proof -
  let ?started = "StartWebSocket CreateWebSocket
                    (c\<lparr>ConnectionId := stored_identifier JsonObject (ConnectionId c)\<rparr>)"
  note result = OnNegotiateResponse_cases
      [where Deserialize = Deserialize and Response = Response and JsonObject = JsonObject
         and CreateWebSocket = CreateWebSocket and c = c and InRequest = InRequest and b = b,
       OF assms(1,2)]
  have continues:
    "OnNegotiateResponse Deserialize CreateWebSocket c InRequest (Some Response) b
       = Inr (if HasTypedField EJson_Array JsonObject ''availableTransports''
                 \<and> \<not> (\<exists>entry \<in> set (GetArrayField JsonObject ''availableTransports'').
                         advertises_WebSockets_Text entry)
              then (c, [UE_LOG_Error ''The server does not support WebSockets which is currently the only transport supported by this client.'' []])
              else ?started)"
    if "\<not> HasField JsonObject ''error'' \<and> \<not> HasField JsonObject ''ProtocolVersion''"
    using that result assms(4) by simp
  have not_redirect:
    "OnNegotiateResponse Deserialize CreateWebSocket c InRequest (Some Response) b
       \<noteq> Inr (c, [])"
    if "\<not> HasField JsonObject ''error'' \<and> \<not> HasField JsonObject ''ProtocolVersion''"
    unfolding continues [OF that]
    using StartWebSocket_nonempty
      [of CreateWebSocket "c\<lparr>ConnectionId := stored_identifier JsonObject (ConnectionId c)\<rparr>" c]
    by simp
  have may_construct:
    "\<exists>c' calls.
       OnNegotiateResponse Deserialize CreateWebSocket c InRequest (Some Response) b
         = Inr (c', calls)
       \<and> constructs_transport calls
       \<and> ConnectionId c' = stored_identifier JsonObject (ConnectionId c)"
    if "\<not> HasField JsonObject ''error'' \<and> \<not> HasField JsonObject ''ProtocolVersion''"
      and "HasTypedField EJson_Array JsonObject ''availableTransports'' \<longrightarrow>
             (\<exists>entry \<in> set (GetArrayField JsonObject ''availableTransports'').
                advertises_WebSockets_Text entry)"
  proof -
    have "OnNegotiateResponse Deserialize CreateWebSocket c InRequest (Some Response) b
            = Inr (fst ?started, snd ?started)"
      using continues [OF that(1)] that(2) by auto
    moreover have "constructs_transport (snd ?started)"
      by (rule StartWebSocket_constructs)
    moreover have "ConnectionId (fst ?started) = stored_identifier JsonObject (ConnectionId c)"
      by (simp add: StartWebSocket_members)
    ultimately show ?thesis by blast
  qed
  have as_without:
    "OnNegotiateResponse Deserialize CreateWebSocket c InRequest (Some Response) b
       = OnNegotiateResponse Deserialize CreateWebSocket c InRequest (Some Response') b"
    if "ResponseCode Response' = 200"
      and "Deserialize (ContentAsString Response')
             = (True, Some (Remove JsonObject ''url''))"
  proof -
    note result' = OnNegotiateResponse_cases
      [where Deserialize = Deserialize and Response = Response'
         and JsonObject = "Remove JsonObject ''url''"
         and CreateWebSocket = CreateWebSocket and c = c and InRequest = InRequest and b = b,
       OF that(1,2)]
    show ?thesis
      using result result' assms(4)
      by (simp add: other_field stored_identifier_other_field removed_field field_names)
  qed
  from continues not_redirect may_construct as_without show ?thesis by blast
qed


theorem url_not_a_string_witness:
  "ResponseCode \<lparr>ResponseCode = 200, ContentAsString = url_number_body\<rparr> = 200
   \<and> reader [(url_number_body, url_number_object),
              (scenario_A_body, Remove url_number_object ''url'')]
        (ContentAsString \<lparr>ResponseCode = 200, ContentAsString = url_number_body\<rparr>)
       = (True, Some url_number_object)
   \<and> HasField url_number_object ''url''
   \<and> \<not> HasTypedField EJson_String url_number_object ''url''
   \<and> \<not> HasField url_number_object ''error''
   \<and> \<not> HasField url_number_object ''ProtocolVersion''
   \<and> OnNegotiateResponse
        (reader [(url_number_body, url_number_object),
                 (scenario_A_body, Remove url_number_object ''url'')])
        socket_module example_connection None
        (Some \<lparr>ResponseCode = 200, ContentAsString = url_number_body\<rparr>) True
       = Inr (StartWebSocket socket_module (example_connection\<lparr>ConnectionId := ''abc123''\<rparr>))
   \<and> OnNegotiateResponse
        (reader [(url_number_body, url_number_object),
                 (scenario_A_body, Remove url_number_object ''url'')])
        socket_module example_connection None
        (Some \<lparr>ResponseCode = 200, ContentAsString = url_number_body\<rparr>) True
       \<noteq> Inr (example_connection, [])
   \<and> HasTypedField EJson_Array url_number_object ''availableTransports''
   \<and> (\<exists>entry \<in> set (GetArrayField url_number_object ''availableTransports'').
         advertises_WebSockets_Text entry)
   \<and> (\<exists>c' calls.
         OnNegotiateResponse
           (reader [(url_number_body, url_number_object),
                    (scenario_A_body, Remove url_number_object ''url'')])
           socket_module example_connection None
           (Some \<lparr>ResponseCode = 200, ContentAsString = url_number_body\<rparr>) True
         = Inr (c', calls)
         \<and> constructs_transport calls \<and> ConnectionId c' = ''abc123'')
   \<and> ResponseCode \<lparr>ResponseCode = 200, ContentAsString = scenario_A_body\<rparr> = 200
   \<and> reader [(url_number_body, url_number_object),
              (scenario_A_body, Remove url_number_object ''url'')]
        (ContentAsString \<lparr>ResponseCode = 200, ContentAsString = scenario_A_body\<rparr>)
       = (True, Some (Remove url_number_object ''url''))
   \<and> OnNegotiateResponse
        (reader [(url_number_body, url_number_object),
                 (scenario_A_body, Remove url_number_object ''url'')])
        socket_module example_connection None
        (Some \<lparr>ResponseCode = 200, ContentAsString = url_number_body\<rparr>) True
       = OnNegotiateResponse
        (reader [(url_number_body, url_number_object),
                 (scenario_A_body, Remove url_number_object ''url'')])
        socket_module example_connection None
        (Some \<lparr>ResponseCode = 200, ContentAsString = scenario_A_body\<rparr>) True"
proof -
  let ?r = "\<lparr>ResponseCode = 200, ContentAsString = url_number_body\<rparr>"
  let ?r' = "\<lparr>ResponseCode = 200, ContentAsString = scenario_A_body\<rparr>"
  let ?d = "reader [(url_number_body, url_number_object),
                 (scenario_A_body, Remove url_number_object ''url'')]"
  have bodies: "scenario_A_body \<noteq> url_number_body"
    by (simp add: scenario_A_body_def url_number_body_def)
  have h1: "ResponseCode ?r = 200" by simp
  have h2: "?d (ContentAsString ?r) = (True, Some url_number_object)"
    by (simp add: reader_def)
  have h1': "ResponseCode ?r' = 200" by simp
  have h2': "?d (ContentAsString ?r') = (True, Some (Remove url_number_object ''url''))"
    using bodies by (simp add: reader_def)
  note at_example = url_not_a_string
      [where Deserialize = ?d and Response = ?r and JsonObject = url_number_object
         and CreateWebSocket = socket_module and c = example_connection
         and InRequest = None and b = True and Response' = ?r',
       OF h1 h2 url_number_fields(3,4)]
  have gates: "\<not> HasField url_number_object ''error''
                \<and> \<not> HasField url_number_object ''ProtocolVersion''"
    by (simp add: url_number_fields)
  have compatible: "HasTypedField EJson_Array url_number_object ''availableTransports'' \<longrightarrow>
         (\<exists>entry \<in> set (GetArrayField url_number_object ''availableTransports'').
            advertises_WebSockets_Text entry)"
    by (simp add: url_number_fields example_entries)
  have some: "\<exists>entry \<in> set (GetArrayField url_number_object ''availableTransports'').
         advertises_WebSockets_Text entry"
    by (simp add: url_number_fields example_entries)
  have run: "OnNegotiateResponse ?d socket_module example_connection None (Some ?r) True
       = Inr (StartWebSocket socket_module (example_connection\<lparr>ConnectionId := ''abc123''\<rparr>))"
    using at_example gates by (simp add: url_number_fields example_entries)
  have not_redirect:
    "OnNegotiateResponse ?d socket_module example_connection None (Some ?r) True
       \<noteq> Inr (example_connection, [])"
    using at_example gates by blast
  have may_construct: "\<exists>c' calls.
         OnNegotiateResponse ?d socket_module example_connection None (Some ?r) True
         = Inr (c', calls)
         \<and> constructs_transport calls \<and> ConnectionId c' = ''abc123''"
  proof -
    from at_example gates compatible have "\<exists>c' calls.
         OnNegotiateResponse ?d socket_module example_connection None (Some ?r) True
         = Inr (c', calls)
         \<and> constructs_transport calls
         \<and> ConnectionId c'
             = stored_identifier url_number_object (ConnectionId example_connection)"
      by blast
    then show ?thesis by (simp add: url_number_fields)
  qed
  have same: "OnNegotiateResponse ?d socket_module example_connection None (Some ?r) True
       = OnNegotiateResponse ?d socket_module example_connection None (Some ?r') True"
    using at_example h1' h2' by blast
  show ?thesis
    by (intro conjI h1 h2 url_number_fields(1-5) run not_redirect some may_construct
        h1' h2' same)
qed

end
